theory Spec2Isabelle
  imports Main "HOL-Library.Char_ord" "HOL-Library.List_Lexorder" "HOL-Library.AList"
begin

section \<open>Data model of the chunk store\<close>

text \<open>
  A timestamp (\<^verbatim>\<open>model.Time\<close>) is a number of milliseconds and a duration
  (\<^verbatim>\<open>time.Duration\<close>) a number of nanoseconds, both of type \<^verbatim>\<open>int64\<close>. They are
  integers here, and the arithmetic of the time library wraps around as that of
  \<^verbatim>\<open>int64\<close> does: \<open>int64\<close> is the value a result takes in 64 bits. A Go
  \<^verbatim>\<open>[]byte\<close> is a list of 8-bit characters, so \<^verbatim>\<open>string(b)\<close> is the identity.
\<close>

type_synonym Time = int
type_synonym Duration = int
type_synonym bytes = string

definition int64 :: "int \<Rightarrow> int" where
  "int64 x = (x + 2 ^ 63) mod 2 ^ 64 - 2 ^ 63"

text \<open>
  The methods of \<^verbatim>\<open>model.Time\<close>, of the Prometheus library:
  \<^verbatim>\<open>t.Add(d) = t + Time(d/minimumTick)\<close> and
  \<^verbatim>\<open>t.Sub(o) = time.Duration(t-o) * minimumTick\<close>, where \<^verbatim>\<open>minimumTick\<close> is
  \<^verbatim>\<open>time.Millisecond\<close>, the number of nanoseconds of a millisecond. The division of Go
  truncates towards zero.
\<close>

definition minimumTick :: Duration where
  "minimumTick = 1000000"

definition truncDiv :: "int \<Rightarrow> int \<Rightarrow> int" where
  "truncDiv a b = sgn a * sgn b * (\<bar>a\<bar> div \<bar>b\<bar>)"

definition Time_Add :: "Time \<Rightarrow> Duration \<Rightarrow> Time" where
  "Time_Add t d = int64 (t + truncDiv d minimumTick)"

definition Time_Sub :: "Time \<Rightarrow> Time \<Rightarrow> Duration" where
  "Time_Sub t u = int64 (int64 (t - u) * minimumTick)"

text \<open>
  Errors are values. The sentinels of package \<^verbatim>\<open>chunk\<close> are constructors, so that
  the source's comparisons \<^verbatim>\<open>err == ErrStorageObjectNotFound\<close> are equalities.
  \<^verbatim>\<open>Errorf\<close> is a plain error made by \<^verbatim>\<open>fmt.Errorf\<close> or \<^verbatim>\<open>errors.New\<close>
  (it carries no status code), \<^verbatim>\<open>HTTPError\<close> is \<^verbatim>\<open>httpgrpc.Errorf(code, ...)\<close>,
  \<^verbatim>\<open>Wrapf\<close> is \<^verbatim>\<open>errors.Wrap\<close>/\<^verbatim>\<open>errors.Wrapf\<close> and \<^verbatim>\<open>ErrStorage\<close> is
  \<^verbatim>\<open>promql.ErrStorage\<close>. Messages are the format strings, their arguments not rendered.
\<close>

datatype error =
    ErrMetricNameLabelMissing
  | ErrParialDeleteChunkNoOverlap
  | ErrStorageObjectNotFound
  | ErrSliceNoDataInRange
  | Errorf string
  | HTTPError nat string
  | Wrapf string error
  | ErrStorage error

definition StatusBadRequest :: nat where
  "StatusBadRequest = 400"

text \<open>Label sets: a list of name/value pairs; \<^verbatim>\<open>Get\<close> yields the empty string for an absent name.\<close>

type_synonym Labels = "(string \<times> string) list"

definition MetricName :: string where
  "MetricName = ''__name__''"

definition Labels_Get :: "Labels \<Rightarrow> string \<Rightarrow> string" where
  "Labels_Get ls n = (case map_of ls n of None \<Rightarrow> [] | Some v \<Rightarrow> v)"

text \<open>
  A label matcher as in \<^verbatim>\<open>labels.Matcher\<close> of the Prometheus library: type, name, value
  and the compiled regular expression (a predicate on strings). \<^verbatim>\<open>Matches\<close> compares
  with the value, or asks the regular expression.
\<close>

datatype MatchType = MatchEqual | MatchNotEqual | MatchRegexp | MatchNotRegexp

record Matcher =
  Type :: MatchType
  Name :: string
  Value :: string
  re :: "string \<Rightarrow> bool"

definition Matches :: "Matcher \<Rightarrow> string \<Rightarrow> bool" where
  "Matches m s =
     (case Type m of
        MatchEqual \<Rightarrow> s = Value m
      | MatchNotEqual \<Rightarrow> s \<noteq> Value m
      | MatchRegexp \<Rightarrow> re m s
      | MatchNotRegexp \<Rightarrow> \<not> re m s)"

record Chunk =
  Fingerprint :: nat
  UserID :: string
  From :: Time
  Through :: Time
  Metric :: Labels
  Checksum :: nat
  Data :: bytes

record IndexEntry =
  TableName :: string
  HashValue :: string
  RangeValue :: bytes
  EntryValue :: bytes

record IndexQuery =
  QTableName :: string
  QHashValue :: string
  QRangeValuePrefix :: bytes

text \<open>
  Modelled from the spec: \<^verbatim>\<open>WriteBatch\<close> and \<^verbatim>\<open>ReadBatch\<close>, interfaces declared in
  another file. A \<^verbatim>\<open>WriteBatch\<close> is an ordered accumulator of Add and Delete operations
  and \<^verbatim>\<open>NewWriteBatch\<close> is the empty one. A \<^verbatim>\<open>ReadBatch\<close> is one page of rows
  (hash value, range value, value).
\<close>

datatype BatchOp =
    Add string string bytes bytes
  | Delete string string bytes

type_synonym WriteBatch = "BatchOp list"

definition NewWriteBatch :: WriteBatch where
  "NewWriteBatch = []"

fun op_triple :: "BatchOp \<Rightarrow> string \<times> string \<times> bytes" where
  "op_triple (Add t h r v) = (t, h, r)"
| "op_triple (Delete t h r) = (t, h, r)"

type_synonym Row = "string \<times> bytes \<times> bytes"
type_synonym ReadBatch = "Row list"

subsection \<open>The collaborators of the store\<close>

text \<open>
  \<^verbatim>\<open>Schema\<close>, \<^verbatim>\<open>IndexClient\<close>, \<^verbatim>\<open>Client\<close>, \<^verbatim>\<open>StoreLimits\<close> and the
  \<^verbatim>\<open>Fetcher\<close> are injected interfaces: each is a record of functions. A client acts on
  its own component of the state only (\<open>'i\<close> the index, \<open>'c\<close> the blob store, \<open>'k\<close> the
  chunk cache) and returns the component it leaves behind with its error, since a failed
  call may have written a part.
\<close>

record Schema =
  GetWriteEntries :: "Time \<Rightarrow> Time \<Rightarrow> string \<Rightarrow> string \<Rightarrow> Labels \<Rightarrow> string \<Rightarrow> error + IndexEntry list"
  GetReadQueriesForMetric :: "Time \<Rightarrow> Time \<Rightarrow> string \<Rightarrow> string \<Rightarrow> error + IndexQuery list"
  GetReadQueriesForMetricLabel :: "Time \<Rightarrow> Time \<Rightarrow> string \<Rightarrow> string \<Rightarrow> string \<Rightarrow> error + IndexQuery list"
  GetReadQueriesForMetricLabelValue ::
    "Time \<Rightarrow> Time \<Rightarrow> string \<Rightarrow> string \<Rightarrow> string \<Rightarrow> string \<Rightarrow> error + IndexQuery list"

record 'i IndexClient =
  BatchWrite :: "WriteBatch \<Rightarrow> 'i \<Rightarrow> error option \<times> 'i"
  QueryPages :: "IndexQuery list \<Rightarrow> 'i \<Rightarrow> (IndexQuery \<times> ReadBatch) list \<times> error option"

record 'c Client =
  PutChunks :: "Chunk list \<Rightarrow> 'c \<Rightarrow> error option \<times> 'c"
  Client_DeleteChunk :: "string \<Rightarrow> 'c \<Rightarrow> error option \<times> 'c"

record StoreLimits =
  MaxQueryLength :: "string \<Rightarrow> Duration"
  MaxChunksPerQuery :: "string \<Rightarrow> int"

record ('c, 'k) Fetcher =
  storage :: "'c Client"
  FetchChunks :: "Chunk list \<Rightarrow> string list \<Rightarrow> 'c \<Rightarrow> 'k \<Rightarrow> (error + Chunk list) \<times> 'k"
  writeBackCache :: "Chunk list \<Rightarrow> 'k \<Rightarrow> error option \<times> 'k"

text \<open>
  Functions of package \<^verbatim>\<open>chunk\<close> that the store calls and whose bodies are in other
  files: the external key of a chunk and its parser, the decoder of a range value, and
  the slicing and encoding of a chunk. They are parameters of the model.
\<close>

record ChunkPkg =
  ExternalKey :: "Chunk \<Rightarrow> string"
  ParseExternalKey :: "string \<Rightarrow> string \<Rightarrow> error + Chunk"
  parseChunkTimeRangeValue :: "bytes \<Rightarrow> bytes \<Rightarrow> error + (string \<times> bytes \<times> bytes)"
  Slice :: "Chunk \<Rightarrow> Time \<Rightarrow> Time \<Rightarrow> Chunk option \<times> error option"
  Encode :: "Chunk \<Rightarrow> error + Chunk"

record ('i, 'c, 'k) store =
  MaxLookBackPeriod :: Duration
  index :: "'i IndexClient"
  chunks :: "'c Client"
  schema :: Schema
  limits :: StoreLimits
  fetcher :: "('c, 'k) Fetcher"
  pkg :: ChunkPkg

text \<open>
  The state the store acts on: the three components and the lines the store has logged at
  the levels of a warning or an error (the messages, their fields not rendered).
\<close>

record ('i, 'c, 'k) world =
  idx :: 'i
  blobs :: 'c
  cache :: 'k
  logged :: "string list"

section \<open>Write path\<close>

fun hexdigit :: "nat \<Rightarrow> char" where
  "hexdigit n = (''0123456789abcdef'') ! (n mod 16)"

definition hex :: "bytes \<Rightarrow> string" where
  "hex bs = concat (map (\<lambda>c. [hexdigit (of_char c div 16), hexdigit (of_char c mod 16)]) bs)"

text \<open>The key \<^verbatim>\<open>fmt.Sprintf("%s:%s:%x", TableName, HashValue, RangeValue)\<close>.\<close>

definition entry_key :: "IndexEntry \<Rightarrow> string" where
  "entry_key e = TableName e @ '':'' @ HashValue e @ '':'' @ hex (RangeValue e)"

text \<open>The same key from a triple, and the operation that adds an entry.\<close>

definition triple_key :: "string \<times> string \<times> bytes \<Rightarrow> string" where
  "triple_key x = (case x of (t, h, r) \<Rightarrow> t @ '':'' @ h @ '':'' @ hex r)"

definition entry_op :: "IndexEntry \<Rightarrow> BatchOp" where
  "entry_op e = Add (TableName e) (HashValue e) (RangeValue e) (EntryValue e)"

text \<open>The loop of \<^verbatim>\<open>calculateIndexEntries\<close> over the schema's entries.\<close>

fun dedupEntries :: "IndexEntry list \<Rightarrow> string set \<Rightarrow> WriteBatch \<Rightarrow> WriteBatch" where
  "dedupEntries [] seenIndexEntries result = result"
| "dedupEntries (entry # entries) seenIndexEntries result =
     (let key = entry_key entry in
      if key \<notin> seenIndexEntries
      then dedupEntries entries (insert key seenIndexEntries)
             (result @ [Add (TableName entry) (HashValue entry) (RangeValue entry) (EntryValue entry)])
      else dedupEntries entries seenIndexEntries result)"

definition calculateIndexEntries ::
  "('i, 'c, 'k) store \<Rightarrow> string \<Rightarrow> Time \<Rightarrow> Time \<Rightarrow> Chunk \<Rightarrow> error + WriteBatch" where
  "calculateIndexEntries c userID from through chunk =
     (let metricName = Labels_Get (Metric chunk) MetricName in
      if metricName = [] then Inl ErrMetricNameLabelMissing
      else case GetWriteEntries (schema c) from through userID metricName (Metric chunk)
                  (ExternalKey (pkg c) chunk) of
             Inl err \<Rightarrow> Inl err
           | Inr entries \<Rightarrow> Inr (dedupEntries entries {} NewWriteBatch))"

text \<open>
  \<^verbatim>\<open>PutOne\<close>: payload first, then the best-effort write-back to the cache (its error is
  only logged), then the index entries, then the index write. The histogram of entries
  per chunk is not part of the state.
\<close>

definition cacheWarning :: string where
  "cacheWarning = ''could not store chunks in chunk cache''"

definition PutOne ::
  "('i, 'c, 'k) store \<Rightarrow> Time \<Rightarrow> Time \<Rightarrow> Chunk \<Rightarrow> ('i, 'c, 'k) world
     \<Rightarrow> error option \<times> ('i, 'c, 'k) world" where
  "PutOne c from through chunk w =
     (let chunks = [chunk] in
      case PutChunks (storage (fetcher c)) chunks (blobs w) of
        (Some err, b') \<Rightarrow> (Some err, w\<lparr>blobs := b'\<rparr>)
      | (None, b') \<Rightarrow>
          (case writeBackCache (fetcher c) chunks (cache w) of
             (cacheErr, k') \<Rightarrow>
               (let w' = w\<lparr>blobs := b', cache := k',
                            logged := logged w @
                              (case cacheErr of
                                 Some e \<Rightarrow> [cacheWarning]
                               | None \<Rightarrow> [])\<rparr>
                in case calculateIndexEntries c (UserID chunk) from through chunk of
                     Inl err \<Rightarrow> (Some err, w')
                   | Inr writeReqs \<Rightarrow>
                       (case BatchWrite (index c) writeReqs (idx w') of
                          (err, i') \<Rightarrow> (err, w'\<lparr>idx := i'\<rparr>)))))"


section \<open>Query validation\<close>

text \<open>
  Modelled from the spec: the message of the query-too-long error,
  \<^verbatim>\<open>validation.ErrQueryTooLong\<close>, a constant of another package.
\<close>

definition ErrQueryTooLong :: string where
  "ErrQueryTooLong = ''invalid query, length > limit (%s > %s)''"

text \<open>\<^verbatim>\<open>5 * time.Minute\<close>, in nanoseconds.\<close>

definition fiveMinutes :: Duration where
  "fiveMinutes = 5 * 60 * 1000000000"

text \<open>
  \<^verbatim>\<open>validateQueryTimeRange\<close> updates \<^verbatim>\<open>*from\<close> and \<^verbatim>\<open>*through\<close> in place: the model
  returns them with the shortcut flag. \<open>now\<close> is the clock reading \<^verbatim>\<open>model.Now()\<close> of the
  call and \<open>now2\<close> the second reading, taken for the look-back limit. The limit
  \<^verbatim>\<open>MaxQueryLength\<close> and the period \<^verbatim>\<open>MaxLookBackPeriod\<close> are durations.
\<close>

definition validateQueryTimeRange ::
  "('i, 'c, 'k) store \<Rightarrow> string \<Rightarrow> Time \<Rightarrow> Time \<Rightarrow> Time \<Rightarrow> Time \<Rightarrow> error + (bool \<times> Time \<times> Time)" where
  "validateQueryTimeRange c userID from through now now2 =
     (if through < from
      then Inl (HTTPError StatusBadRequest ''invalid query, through < from (%s < %s)'')
      else
        let maxQueryLength = MaxQueryLength (limits c) userID in
        if maxQueryLength > 0 \<and> Time_Sub through from > maxQueryLength
        then Inl (HTTPError StatusBadRequest ErrQueryTooLong)
        else if from > now then Inr (True, from, through)
        else
          let from' =
                (if MaxLookBackPeriod c \<noteq> 0
                 then (let oldestStartTime = Time_Add now2 (int64 (- MaxLookBackPeriod c)) in
                       if oldestStartTime > from then oldestStartTime else from)
                 else from);
              through' = (if through > Time_Add now fiveMinutes then now else through)
          in Inr (False, from', through'))"

text \<open>
  Modelled from the spec: \<^verbatim>\<open>extract.MetricNameMatcherFromMatchers\<close>, a function of another
  package. The matcher on the metric-name label is extracted and removed from the matchers;
  the flag tells whether there was one.
\<close>

fun MetricNameMatcherFromMatchers :: "Matcher list \<Rightarrow> Matcher option \<times> Matcher list \<times> bool" where
  "MetricNameMatcherFromMatchers [] = (None, [], False)"
| "MetricNameMatcherFromMatchers (m # ms) =
     (if Name m = MetricName then (Some m, ms, True)
      else case MetricNameMatcherFromMatchers ms of
             (found, out, ok) \<Rightarrow> (found, m # out, ok))"

definition validateQuery ::
  "('i, 'c, 'k) store \<Rightarrow> string \<Rightarrow> Time \<Rightarrow> Time \<Rightarrow> Matcher list \<Rightarrow> Time \<Rightarrow> Time
     \<Rightarrow> error + (string \<times> Matcher list \<times> bool \<times> Time \<times> Time)" where
  "validateQuery c userID from through matchers now now2 =
     (case validateQueryTimeRange c userID from through now now2 of
        Inl err \<Rightarrow> Inl err
      | Inr (shortcut, from', through') \<Rightarrow>
          if shortcut then Inr ([], [], True, from', through')
          else
            (case MetricNameMatcherFromMatchers matchers of
               (metricNameMatcher, matchers', ok) \<Rightarrow>
                 (case metricNameMatcher of
                    None \<Rightarrow> Inl (HTTPError StatusBadRequest ''query must contain metric name'')
                  | Some m \<Rightarrow>
                      if \<not> ok \<or> Type m \<noteq> MatchEqual
                      then Inl (HTTPError StatusBadRequest ''query must contain metric name'')
                      else Inr (Value m, matchers', False, from', through'))))"

section \<open>Read path\<close>

text \<open>
  \<^verbatim>\<open>lookupEntriesByQueries\<close>: the callback appends the rows of every page it is given,
  under the table and hash of the page's query. The list of pages is the order in which
  the index client invoked the callback. An error of the index client is logged and
  returned with the entries: the third component is what the call logs.
\<close>

definition lookupEntriesByQueries ::
  "('i, 'c, 'k) store \<Rightarrow> IndexQuery list \<Rightarrow> 'i \<Rightarrow> IndexEntry list \<times> error option \<times> string list" where
  "lookupEntriesByQueries c queries i =
     (case QueryPages (index c) queries i of
        (calls, err) \<Rightarrow>
          (concat (map (\<lambda>(query, resp).
                     map (\<lambda>(h, r, v). \<lparr>TableName = QTableName query, HashValue = QHashValue query,
                                        RangeValue = r, EntryValue = v\<rparr>) resp) calls),
           err,
           (case err of Some e \<Rightarrow> [''error querying storage''] | None \<Rightarrow> [])))"

text \<open>
  Modelled from the spec: \<^verbatim>\<open>uniqueStrings\<close> and \<^verbatim>\<open>intersectStrings\<close>, helpers of
  package \<^verbatim>\<open>chunk\<close> in another file. The first removes the repetitions of a sorted list;
  the second is the intersection of two lists of identifiers. Neither returns \<^verbatim>\<open>nil\<close>.
\<close>

definition uniqueStrings :: "string list \<Rightarrow> string list" where
  "uniqueStrings cs = remdups_adj cs"

definition intersectStrings :: "string list \<Rightarrow> string list \<Rightarrow> string list" where
  "intersectStrings left right = filter (\<lambda>x. x \<in> set right) left"

text \<open>The loop of \<^verbatim>\<open>parseIndexEntries\<close>; a matcher of \<open>None\<close> is the source's \<^verbatim>\<open>nil\<close>.\<close>

fun parseEntriesLoop :: "ChunkPkg \<Rightarrow> IndexEntry list \<Rightarrow> Matcher option \<Rightarrow> error + string list" where
  "parseEntriesLoop p [] matcher = Inr []"
| "parseEntriesLoop p (entry # entries) matcher =
     (case parseChunkTimeRangeValue p (RangeValue entry) (EntryValue entry) of
        Inl err \<Rightarrow> Inl err
      | Inr (chunkKey, labelValue, sha) \<Rightarrow>
          (case parseEntriesLoop p entries matcher of
             Inl err \<Rightarrow> Inl err
           | Inr result \<Rightarrow>
               (case matcher of
                  None \<Rightarrow> Inr (chunkKey # result)
                | Some m \<Rightarrow> if \<not> Matches m labelValue then Inr result else Inr (chunkKey # result))))"

definition parseIndexEntries ::
  "('i, 'c, 'k) store \<Rightarrow> IndexEntry list \<Rightarrow> Matcher option \<Rightarrow> error + string list" where
  "parseIndexEntries c entries matcher =
     (case parseEntriesLoop (pkg c) entries matcher of
        Inl err \<Rightarrow> Inl err
      | Inr result \<Rightarrow> Inr (uniqueStrings (sort result)))"

fun convertChunkIDsToChunks :: "('i, 'c, 'k) store \<Rightarrow> string \<Rightarrow> string list \<Rightarrow> error + Chunk list" where
  "convertChunkIDsToChunks c userID [] = Inr []"
| "convertChunkIDsToChunks c userID (chunkID # chunkIDs) =
     (case ParseExternalKey (pkg c) userID chunkID of
        Inl err \<Rightarrow> Inl err
      | Inr chunk \<Rightarrow>
          (case convertChunkIDsToChunks c userID chunkIDs of
             Inl err \<Rightarrow> Inl err
           | Inr chunkSet \<Rightarrow> Inr (chunk # chunkSet)))"

text \<open>
  The identifiers of the branch without matchers, all chunks of the metric, with the lines
  the lookup logs.
\<close>

definition lookupMetric ::
  "('i, 'c, 'k) store \<Rightarrow> string \<Rightarrow> Time \<Rightarrow> Time \<Rightarrow> string \<Rightarrow> 'i
     \<Rightarrow> (error + string list) \<times> string list" where
  "lookupMetric c userID from through metricName i =
     (case GetReadQueriesForMetric (schema c) from through userID metricName of
        Inl err \<Rightarrow> (Inl err, [])
      | Inr queries \<Rightarrow>
          (case lookupEntriesByQueries c queries i of
             (entries, Some err, lines) \<Rightarrow> (Inl err, lines)
           | (entries, None, lines) \<Rightarrow> (parseIndexEntries c entries None, lines)))"

text \<open>
  The body of the goroutine started for one matcher: what it sends, on the channel of
  errors (\<open>Inl\<close>) or on the channel of identifiers (\<open>Inr\<close>), with the lines it logs.
\<close>

definition matcherQueries ::
  "('i, 'c, 'k) store \<Rightarrow> string \<Rightarrow> Time \<Rightarrow> Time \<Rightarrow> string \<Rightarrow> Matcher \<Rightarrow> error + IndexQuery list" where
  "matcherQueries c userID from through metricName matcher =
     (if Type matcher \<noteq> MatchEqual
      then GetReadQueriesForMetricLabel (schema c) from through userID metricName (Name matcher)
      else GetReadQueriesForMetricLabelValue (schema c) from through userID metricName
             (Name matcher) (Value matcher))"

definition lookupMatcher ::
  "('i, 'c, 'k) store \<Rightarrow> string \<Rightarrow> Time \<Rightarrow> Time \<Rightarrow> string \<Rightarrow> 'i \<Rightarrow> Matcher
     \<Rightarrow> (error + string list) \<times> string list" where
  "lookupMatcher c userID from through metricName i matcher =
     (case matcherQueries c userID from through metricName matcher of
        Inl err \<Rightarrow> (Inl err, [])
      | Inr queries \<Rightarrow>
          (case lookupEntriesByQueries c queries i of
             (entries, Some err, lines) \<Rightarrow> (Inl err, lines)
           | (entries, None, lines) \<Rightarrow> (parseIndexEntries c entries (Some matcher), lines)))"







text \<open>
  The goroutines deliver in any order. A schedule is a list of numbers: at each step the
  number picks, among the messages still pending, the one that arrives next. Every
  schedule gives an order of arrival and every order of arrival has a schedule.
\<close>

fun arrive :: "nat list \<Rightarrow> 'a list \<Rightarrow> 'a list" where
  "arrive sched [] = []"
| "arrive [] (x # xs) = x # xs"
| "arrive (k # ks) (x # xs) =
     (let n = k mod length (x # xs) in
      (x # xs) ! n # arrive ks (take n (x # xs) @ drop (Suc n) (x # xs)))"

text \<open>
  The receiving loop: \<open>chunkIDs\<close> starts as \<^verbatim>\<open>nil\<close> (\<open>None\<close>), the first set that arrives
  replaces it, every later one is intersected with it; the last error is kept.
\<close>

fun receive ::
  "(error + string list) list \<Rightarrow> string list option \<Rightarrow> error option
     \<Rightarrow> string list option \<times> error option" where
  "receive [] chunkIDs lastErr = (chunkIDs, lastErr)"
| "receive (Inr incoming # msgs) chunkIDs lastErr =
     receive msgs
       (case chunkIDs of
          None \<Rightarrow> Some incoming
        | Some ids \<Rightarrow> Some (intersectStrings ids incoming))
       lastErr"
| "receive (Inl err # msgs) chunkIDs lastErr = receive msgs chunkIDs (Some err)"

text \<open>
  The identifiers \<^verbatim>\<open>lookupChunksByMetricName\<close> hands to \<^verbatim>\<open>convertChunkIDsToChunks\<close>,
  with the lines logged. Every goroutine runs to its end, so every line of every goroutine
  is logged; the lines are all the same, so their order does not show.
\<close>

definition lookupChunkIDs ::
  "('i, 'c, 'k) store \<Rightarrow> string \<Rightarrow> Time \<Rightarrow> Time \<Rightarrow> Matcher list \<Rightarrow> string \<Rightarrow> nat list \<Rightarrow> 'i
     \<Rightarrow> (error + string list) \<times> string list" where
  "lookupChunkIDs c userID from through matchers metricName sched i =
     (if length matchers = 0 then lookupMetric c userID from through metricName i
      else
        (let sent = map (lookupMatcher c userID from through metricName i) matchers in
         (case receive (arrive sched (map fst sent)) None None of
            (chunkIDs, Some lastErr) \<Rightarrow> Inl lastErr
          | (chunkIDs, None) \<Rightarrow> Inr (case chunkIDs of None \<Rightarrow> [] | Some ids \<Rightarrow> ids),
          concat (map snd sent))))"

definition lookupChunksByMetricName ::
  "('i, 'c, 'k) store \<Rightarrow> string \<Rightarrow> Time \<Rightarrow> Time \<Rightarrow> Matcher list \<Rightarrow> string \<Rightarrow> nat list \<Rightarrow> 'i
     \<Rightarrow> (error + Chunk list) \<times> string list" where
  "lookupChunksByMetricName c userID from through matchers metricName sched i =
     (case lookupChunkIDs c userID from through matchers metricName sched i of
        (Inl err, lines) \<Rightarrow> (Inl err, lines)
      | (Inr chunkIDs, lines) \<Rightarrow> (convertChunkIDsToChunks c userID chunkIDs, lines))"

text \<open>
  Modelled from the spec: \<^verbatim>\<open>util.SplitFiltersAndMatchers\<close>, \<^verbatim>\<open>filterChunksByTime\<close>,
  \<^verbatim>\<open>filterChunksByMatchers\<close> and \<^verbatim>\<open>keysFromChunks\<close>, helpers in other files. The filters
  are the matchers that match the empty string, which the index cannot answer; a chunk is
  kept when its interval overlaps the queried one, and when its labels satisfy every filter.
\<close>

definition SplitFiltersAndMatchers :: "Matcher list \<Rightarrow> Matcher list \<times> Matcher list" where
  "SplitFiltersAndMatchers allMatchers =
     (filter (\<lambda>m. Matches m []) allMatchers, filter (\<lambda>m. \<not> Matches m []) allMatchers)"

definition filterChunksByTime :: "Time \<Rightarrow> Time \<Rightarrow> Chunk list \<Rightarrow> Chunk list" where
  "filterChunksByTime from through cs =
     filter (\<lambda>chunk. \<not> (Through chunk < from \<or> through < From chunk)) cs"

definition filterChunksByMatchers :: "Chunk list \<Rightarrow> Matcher list \<Rightarrow> Chunk list" where
  "filterChunksByMatchers cs filters =
     filter (\<lambda>chunk. list_all (\<lambda>f. Matches f (Labels_Get (Metric chunk) (Name f))) filters) cs"

definition keysFromChunks :: "('i, 'c, 'k) store \<Rightarrow> Chunk list \<Rightarrow> string list" where
  "keysFromChunks c cs = map (ExternalKey (pkg c)) cs"

definition getMetricNameChunks ::
  "('i, 'c, 'k) store \<Rightarrow> string \<Rightarrow> Time \<Rightarrow> Time \<Rightarrow> Matcher list \<Rightarrow> string \<Rightarrow> nat list
     \<Rightarrow> ('i, 'c, 'k) world \<Rightarrow> (error + Chunk list) \<times> ('i, 'c, 'k) world" where
  "getMetricNameChunks c userID from through allMatchers metricName sched w =
     (case SplitFiltersAndMatchers allMatchers of
        (filters, matchers) \<Rightarrow>
          (case lookupChunksByMetricName c userID from through matchers metricName sched (idx w) of
             (Inl err, lines) \<Rightarrow> (Inl err, w\<lparr>logged := logged w @ lines\<rparr>)
           | (Inr found, lines) \<Rightarrow>
               (let w1 = w\<lparr>logged := logged w @ lines\<rparr>;
                    filtered = filterChunksByTime from through found;
                    maxChunksPerQuery = MaxChunksPerQuery (limits c) userID
                in if maxChunksPerQuery > 0 \<and> int (length filtered) > maxChunksPerQuery
                   then (Inl (HTTPError StatusBadRequest ''Query %v fetched too many chunks (%d > %d)''),
                         w1\<lparr>logged := logged w1 @ [''Query %v fetched too many chunks (%d > %d)'']\<rparr>)
                   else
                     (let keys = keysFromChunks c filtered in
                      case FetchChunks (fetcher c) filtered keys (blobs w1) (cache w1) of
                        (Inl err, k') \<Rightarrow> (Inl (ErrStorage err), w1\<lparr>cache := k'\<rparr>)
                      | (Inr allChunks, k') \<Rightarrow>
                          (Inr (filterChunksByMatchers allChunks filters), w1\<lparr>cache := k'\<rparr>)))))"

text \<open>\<^verbatim>\<open>Get\<close>; the result \<^verbatim>\<open>nil\<close> of the shortcut is the empty list.\<close>

definition Get ::
  "('i, 'c, 'k) store \<Rightarrow> string \<Rightarrow> Time \<Rightarrow> Time \<Rightarrow> Matcher list \<Rightarrow> Time \<Rightarrow> Time \<Rightarrow> nat list
     \<Rightarrow> ('i, 'c, 'k) world \<Rightarrow> (error + Chunk list) \<times> ('i, 'c, 'k) world" where
  "Get c userID from through allMatchers now now2 sched w =
     (case validateQuery c userID from through allMatchers now now2 of
        Inl err \<Rightarrow> (Inl err, w)
      | Inr (metricName, matchers, shortcut, from', through') \<Rightarrow>
          if shortcut then (Inr [], w)
          else getMetricNameChunks c userID from' through' matchers metricName sched w)"

section \<open>Label discovery\<close>

text \<open>
  Modelled from the spec: \<^verbatim>\<open>UniqueStrings\<close>, \<^verbatim>\<open>filterChunksByUniqueFingerprint\<close> and
  \<^verbatim>\<open>labelNamesFromChunks\<close>, helpers in other files. The first collects each string once,
  the second keeps one chunk per fingerprint and returns the kept chunks with their keys,
  the third is the union of the label names of the chunks.
\<close>

definition UniqueStrings_Strings :: "string list \<Rightarrow> string list" where
  "UniqueStrings_Strings added = sort (remdups added)"

fun uniqueFingerprints :: "Chunk list \<Rightarrow> nat set \<Rightarrow> Chunk list" where
  "uniqueFingerprints [] seen = []"
| "uniqueFingerprints (chunk # cs) seen =
     (if Fingerprint chunk \<in> seen then uniqueFingerprints cs seen
      else chunk # uniqueFingerprints cs (insert (Fingerprint chunk) seen))"

definition filterChunksByUniqueFingerprint ::
  "('i, 'c, 'k) store \<Rightarrow> Chunk list \<Rightarrow> Chunk list \<times> string list" where
  "filterChunksByUniqueFingerprint c cs =
     (let filtered = uniqueFingerprints cs {} in (filtered, keysFromChunks c filtered))"

definition labelNamesFromChunks :: "Chunk list \<Rightarrow> string list" where
  "labelNamesFromChunks cs = UniqueStrings_Strings (concat (map (\<lambda>chunk. map fst (Metric chunk)) cs))"

fun labelValuesLoop :: "ChunkPkg \<Rightarrow> IndexEntry list \<Rightarrow> error + string list" where
  "labelValuesLoop p [] = Inr []"
| "labelValuesLoop p (entry # entries) =
     (case parseChunkTimeRangeValue p (RangeValue entry) (EntryValue entry) of
        Inl err \<Rightarrow> Inl err
      | Inr (chunkKey, labelValue, sha) \<Rightarrow>
          (case labelValuesLoop p entries of
             Inl err \<Rightarrow> Inl err
           | Inr result \<Rightarrow> Inr (labelValue # result)))"

definition LabelValuesForMetricName ::
  "('i, 'c, 'k) store \<Rightarrow> string \<Rightarrow> Time \<Rightarrow> Time \<Rightarrow> string \<Rightarrow> string \<Rightarrow> Time \<Rightarrow> Time
     \<Rightarrow> ('i, 'c, 'k) world \<Rightarrow> (error + string list) \<times> ('i, 'c, 'k) world" where
  "LabelValuesForMetricName c userID from through metricName labelName now now2 w =
     (case validateQueryTimeRange c userID from through now now2 of
        Inl err \<Rightarrow> (Inl err, w)
      | Inr (shortcut, from', through') \<Rightarrow>
          if shortcut then (Inr [], w)
          else
            (case GetReadQueriesForMetricLabel (schema c) from' through' userID metricName labelName of
               Inl err \<Rightarrow> (Inl err, w)
             | Inr queries \<Rightarrow>
                 (case lookupEntriesByQueries c queries (idx w) of
                    (entries, Some err, lines) \<Rightarrow> (Inl err, w\<lparr>logged := logged w @ lines\<rparr>)
                  | (entries, None, lines) \<Rightarrow>
                      (case labelValuesLoop (pkg c) entries of
                         Inl err \<Rightarrow> (Inl err, w\<lparr>logged := logged w @ lines\<rparr>)
                       | Inr result \<Rightarrow>
                           (Inr (UniqueStrings_Strings result), w\<lparr>logged := logged w @ lines\<rparr>)))))"

definition LabelNamesForMetricName ::
  "('i, 'c, 'k) store \<Rightarrow> string \<Rightarrow> Time \<Rightarrow> Time \<Rightarrow> string \<Rightarrow> Time \<Rightarrow> Time \<Rightarrow> nat list
     \<Rightarrow> ('i, 'c, 'k) world \<Rightarrow> (error + string list) \<times> ('i, 'c, 'k) world" where
  "LabelNamesForMetricName c userID from through metricName now now2 sched w =
     (case validateQueryTimeRange c userID from through now now2 of
        Inl err \<Rightarrow> (Inl err, w)
      | Inr (shortcut, from', through') \<Rightarrow>
          if shortcut then (Inr [], w)
          else
            (case lookupChunksByMetricName c userID from' through' [] metricName sched (idx w) of
               (Inl err, lines) \<Rightarrow> (Inl err, w\<lparr>logged := logged w @ lines\<rparr>)
             | (Inr found, lines) \<Rightarrow>
                 (let w1 = w\<lparr>logged := logged w @ lines\<rparr> in
                  case filterChunksByUniqueFingerprint c (filterChunksByTime from' through' found) of
                    (filtered, keys) \<Rightarrow>
                      (case FetchChunks (fetcher c) filtered keys (blobs w1) (cache w1) of
                         (Inl err, k') \<Rightarrow>
                           (Inl err, w1\<lparr>cache := k', logged := logged w1 @ [''FetchChunks'']\<rparr>)
                       | (Inr allChunks, k') \<Rightarrow>
                           (Inr (labelNamesFromChunks allChunks), w1\<lparr>cache := k'\<rparr>)))))"

section \<open>Delete and partial delete\<close>

text \<open>
  Modelled from the spec: \<^verbatim>\<open>intervalsOverlap\<close>, a helper in another file: two closed
  intervals overlap when neither starts after the other ends.
\<close>

definition intervalsOverlap :: "Time \<times> Time \<Rightarrow> Time \<times> Time \<Rightarrow> bool" where
  "intervalsOverlap interval1 interval2 =
     (\<not> (fst interval1 > snd interval2 \<or> fst interval2 > snd interval1))"

text \<open>The two slices of \<^verbatim>\<open>reboundChunk\<close>, kept when the slice is not \<^verbatim>\<open>nil\<close>.\<close>

definition sliceBefore :: "ChunkPkg \<Rightarrow> Chunk \<Rightarrow> Time \<times> Time \<Rightarrow> error + Chunk list" where
  "sliceBefore p chunk partiallyDeletedInterval =
     (if fst partiallyDeletedInterval > From chunk
      then (case Slice p chunk (From chunk) (fst partiallyDeletedInterval - 1) of
              (newChunk, err) \<Rightarrow>
                (case err of
                   Some e \<Rightarrow>
                     if e \<noteq> ErrSliceNoDataInRange
                     then Inl (Wrapf ''when slicing chunk for interval %d - %d'' e)
                     else Inr (case newChunk of Some n \<Rightarrow> [n] | None \<Rightarrow> [])
                 | None \<Rightarrow> Inr (case newChunk of Some n \<Rightarrow> [n] | None \<Rightarrow> [])))
      else Inr [])"

definition sliceAfter :: "ChunkPkg \<Rightarrow> Chunk \<Rightarrow> Time \<times> Time \<Rightarrow> error + Chunk list" where
  "sliceAfter p chunk partiallyDeletedInterval =
     (if snd partiallyDeletedInterval < Through chunk
      then (case Slice p chunk (snd partiallyDeletedInterval + 1) (Through chunk) of
              (newChunk, err) \<Rightarrow>
                (case err of
                   Some e \<Rightarrow>
                     if e \<noteq> ErrSliceNoDataInRange
                     then Inl (Wrapf ''when slicing chunk for interval %d - %d'' e)
                     else Inr (case newChunk of Some n \<Rightarrow> [n] | None \<Rightarrow> [])
                 | None \<Rightarrow> Inr (case newChunk of Some n \<Rightarrow> [n] | None \<Rightarrow> [])))
      else Inr [])"

text \<open>The last loop of \<^verbatim>\<open>reboundChunk\<close>: encode each new chunk and put it.\<close>

fun putNewChunks ::
  "ChunkPkg \<Rightarrow> (Chunk \<Rightarrow> 'w \<Rightarrow> error option \<times> 'w) \<Rightarrow> Chunk list \<Rightarrow> 'w \<Rightarrow> error option \<times> 'w" where
  "putNewChunks p putChunkFunc [] w = (None, w)"
| "putNewChunks p putChunkFunc (newChunk # newChunks) w =
     (case Encode p newChunk of
        Inl err \<Rightarrow>
          (Some (Wrapf ''when encoding new chunk formed after slicing for interval %d - %d'' err), w)
      | Inr encoded \<Rightarrow>
          (case putChunkFunc encoded w of
             (Some err, w') \<Rightarrow>
               (Some (Wrapf ''when putting new chunk formed after slicing for interval %d - %d'' err), w')
           | (None, w') \<Rightarrow> putNewChunks p putChunkFunc newChunks w'))"

definition reboundChunk ::
  "('i, 'c, 'k) store \<Rightarrow> string \<Rightarrow> string \<Rightarrow> Time \<times> Time
     \<Rightarrow> (Chunk \<Rightarrow> ('i, 'c, 'k) world \<Rightarrow> error option \<times> ('i, 'c, 'k) world)
     \<Rightarrow> ('i, 'c, 'k) world \<Rightarrow> error option \<times> ('i, 'c, 'k) world" where
  "reboundChunk c userID chunkID partiallyDeletedInterval putChunkFunc w =
     (case ParseExternalKey (pkg c) userID chunkID of
        Inl err \<Rightarrow> (Some (Wrapf ''when parsing external key'' err), w)
      | Inr parsed \<Rightarrow>
          if \<not> intervalsOverlap (From parsed, Through parsed) partiallyDeletedInterval
          then (Some ErrParialDeleteChunkNoOverlap, w)
          else
            (case FetchChunks (fetcher c) [parsed] [chunkID] (blobs w) (cache w) of
               (Inl err, k') \<Rightarrow>
                 if err = ErrStorageObjectNotFound then (None, w\<lparr>cache := k'\<rparr>)
                 else (Some (Wrapf ''when fetching chunk from storage for slicing'' err), w\<lparr>cache := k'\<rparr>)
             | (Inr fetched, k') \<Rightarrow>
                 (case fetched of
                    [chunk] \<Rightarrow>
                      (case sliceBefore (pkg c) chunk partiallyDeletedInterval of
                         Inl err \<Rightarrow> (Some err, w\<lparr>cache := k'\<rparr>)
                       | Inr firstPart \<Rightarrow>
                           (case sliceAfter (pkg c) chunk partiallyDeletedInterval of
                              Inl err \<Rightarrow> (Some err, w\<lparr>cache := k'\<rparr>)
                            | Inr secondPart \<Rightarrow>
                                putNewChunks (pkg c) putChunkFunc (firstPart @ secondPart) (w\<lparr>cache := k'\<rparr>)))
                  | _ \<Rightarrow>
                      (Some (Errorf ''expected to get 1 chunk from storage got %d instead''),
                       w\<lparr>cache := k'\<rparr>))))"

definition deleteChunk ::
  "('i, 'c, 'k) store \<Rightarrow> string \<Rightarrow> string \<Rightarrow> Labels \<Rightarrow> IndexEntry list \<Rightarrow> (Time \<times> Time) option
     \<Rightarrow> (Chunk \<Rightarrow> ('i, 'c, 'k) world \<Rightarrow> error option \<times> ('i, 'c, 'k) world)
     \<Rightarrow> ('i, 'c, 'k) world \<Rightarrow> error option \<times> ('i, 'c, 'k) world" where
  "deleteChunk c userID chunkID metric chunkWriteEntries partiallyDeletedInterval putChunkFunc w =
     (let metricName = Labels_Get metric MetricName in
      if metricName = [] then (Some ErrMetricNameLabelMissing, w)
      else
        (case (case partiallyDeletedInterval of
                 None \<Rightarrow> (None, w)
               | Some interval \<Rightarrow> reboundChunk c userID chunkID interval putChunkFunc w) of
           (Some err, w1) \<Rightarrow> (Some (Wrapf ''chunkID=%s'' err), w1)
         | (None, w1) \<Rightarrow>
             (let batch = NewWriteBatch @
                          map (\<lambda>e. Delete (TableName e) (HashValue e) (RangeValue e)) chunkWriteEntries
              in case BatchWrite (index c) batch (idx w1) of
                   (Some err, i') \<Rightarrow>
                     (Some (Wrapf ''when deleting index entries for chunkID=%s'' err), w1\<lparr>idx := i'\<rparr>)
                 | (None, i') \<Rightarrow>
                     (case Client_DeleteChunk (chunks c) chunkID (blobs w1) of
                        (Some err, b') \<Rightarrow>
                          if err = ErrStorageObjectNotFound then (None, w1\<lparr>idx := i', blobs := b'\<rparr>)
                          else (Some (Wrapf ''when deleting chunk from storage with chunkID=%s'' err),
                                w1\<lparr>idx := i', blobs := b'\<rparr>)
                      | (None, b') \<Rightarrow> (None, w1\<lparr>idx := i', blobs := b'\<rparr>)))))"

definition DeleteChunk ::
  "('i, 'c, 'k) store \<Rightarrow> Time \<Rightarrow> Time \<Rightarrow> string \<Rightarrow> string \<Rightarrow> Labels \<Rightarrow> (Time \<times> Time) option
     \<Rightarrow> ('i, 'c, 'k) world \<Rightarrow> error option \<times> ('i, 'c, 'k) world" where
  "DeleteChunk c from through userID chunkID metric partiallyDeletedInterval w =
     (let metricName = Labels_Get metric MetricName in
      if metricName = [] then (Some ErrMetricNameLabelMissing, w)
      else
        (case GetWriteEntries (schema c) from through userID metricName metric chunkID of
           Inl err \<Rightarrow> (Some (Wrapf ''when getting index entries to delete for chunkID=%s'' err), w)
         | Inr chunkWriteEntries \<Rightarrow>
             deleteChunk c userID chunkID metric chunkWriteEntries partiallyDeletedInterval
               (\<lambda>chunk. PutOne c (From chunk) (Through chunk) chunk) w))"

section \<open>The multi-tenant block store\<close>

text \<open>
  The incoming context carries its metadata or none; \<^verbatim>\<open>md.Get\<close> yields the values of a
  key, none when the key is absent. Requests and responses are opaque messages. The four
  methods of a tenant's \<^verbatim>\<open>BucketStore\<close> are parameters; each returns the store as it
  leaves it. \<^verbatim>\<open>Series\<close> returns the frames it has sent to the stream.
\<close>

type_synonym MD = "(string \<times> string list) list"

definition MD_Get :: "MD \<Rightarrow> string \<Rightarrow> string list" where
  "MD_Get md k = (case map_of md k of None \<Rightarrow> [] | Some vs \<Rightarrow> vs)"

record 'bs BucketStore =
  BucketStore_Info :: "'bs \<Rightarrow> bytes \<Rightarrow> (bytes option \<times> error option) \<times> 'bs"
  BucketStore_Series :: "'bs \<Rightarrow> bytes \<Rightarrow> (bytes list \<times> error option) \<times> 'bs"
  BucketStore_LabelNames :: "'bs \<Rightarrow> bytes \<Rightarrow> (bytes option \<times> error option) \<times> 'bs"
  BucketStore_LabelValues :: "'bs \<Rightarrow> bytes \<Rightarrow> (bytes option \<times> error option) \<times> 'bs"

record 'bs UserStore =
  stores :: "string \<rightharpoonup> 'bs"

definition getStore :: "'bs UserStore \<Rightarrow> string \<Rightarrow> 'bs option" where
  "getStore u userID = stores u userID"

definition Info ::
  "'bs BucketStore \<Rightarrow> 'bs UserStore \<Rightarrow> MD option \<Rightarrow> bytes
     \<Rightarrow> (bytes option \<times> error option) \<times> 'bs UserStore" where
  "Info bs u ctx req =
     (case ctx of
        None \<Rightarrow> ((None, Some (Errorf ''no metadata'')), u)
      | Some md \<Rightarrow>
          (case MD_Get md ''user'' of
             [] \<Rightarrow> ((None, Some (Errorf ''no userID'')), u)
           | v0 # vs \<Rightarrow>
               (case getStore u v0 of
                  None \<Rightarrow> ((None, None), u)
                | Some store \<Rightarrow>
                    (case BucketStore_Info bs store req of
                       (res, store') \<Rightarrow> (res, u\<lparr>stores := (stores u)(v0 \<mapsto> store')\<rparr>)))))"

definition Series ::
  "'bs BucketStore \<Rightarrow> 'bs UserStore \<Rightarrow> MD option \<Rightarrow> bytes
     \<Rightarrow> (bytes list \<times> error option) \<times> 'bs UserStore" where
  "Series bs u ctx req =
     (case ctx of
        None \<Rightarrow> (([], Some (Errorf ''no metadata'')), u)
      | Some md \<Rightarrow>
          (case MD_Get md ''user'' of
             [] \<Rightarrow> (([], Some (Errorf ''no userID'')), u)
           | v0 # vs \<Rightarrow>
               (case getStore u v0 of
                  None \<Rightarrow> (([], None), u)
                | Some store \<Rightarrow>
                    (case BucketStore_Series bs store req of
                       (res, store') \<Rightarrow> (res, u\<lparr>stores := (stores u)(v0 \<mapsto> store')\<rparr>)))))"

definition LabelNames ::
  "'bs BucketStore \<Rightarrow> 'bs UserStore \<Rightarrow> MD option \<Rightarrow> bytes
     \<Rightarrow> (bytes option \<times> error option) \<times> 'bs UserStore" where
  "LabelNames bs u ctx req =
     (case ctx of
        None \<Rightarrow> ((None, Some (Errorf ''no metadata'')), u)
      | Some md \<Rightarrow>
          (case MD_Get md ''user'' of
             [] \<Rightarrow> ((None, Some (Errorf ''no userID'')), u)
           | v0 # vs \<Rightarrow>
               (case getStore u v0 of
                  None \<Rightarrow> ((None, None), u)
                | Some store \<Rightarrow>
                    (case BucketStore_LabelNames bs store req of
                       (res, store') \<Rightarrow> (res, u\<lparr>stores := (stores u)(v0 \<mapsto> store')\<rparr>)))))"

definition LabelValues ::
  "'bs BucketStore \<Rightarrow> 'bs UserStore \<Rightarrow> MD option \<Rightarrow> bytes
     \<Rightarrow> (bytes option \<times> error option) \<times> 'bs UserStore" where
  "LabelValues bs u ctx req =
     (case ctx of
        None \<Rightarrow> ((None, Some (Errorf ''no metadata'')), u)
      | Some md \<Rightarrow>
          (case MD_Get md ''user'' of
             [] \<Rightarrow> ((None, Some (Errorf ''no userID'')), u)
           | v0 # vs \<Rightarrow>
               (case getStore u v0 of
                  None \<Rightarrow> ((None, None), u)
                | Some store \<Rightarrow>
                    (case BucketStore_LabelValues bs store req of
                       (res, store') \<Rightarrow> (res, u\<lparr>stores := (stores u)(v0 \<mapsto> store')\<rparr>)))))"

text \<open>
  The status an error carries, as \<^verbatim>\<open>status.FromError\<close> of gRPC reads it: an error
  made by \<^verbatim>\<open>httpgrpc.Errorf\<close> carries its code, a plain or wrapped error carries none
  (a caller sees it as \<^verbatim>\<open>Unknown\<close>). An error is of the class \<^verbatim>\<open>InvalidArgument\<close> when
  it carries that code of gRPC or its HTTP equivalent, 400.
\<close>

fun statusCode :: "error \<Rightarrow> nat option" where
  "statusCode (HTTPError code msg) = Some code"
| "statusCode e = None"

definition InvalidArgument :: nat where
  "InvalidArgument = 3"

definition InvalidArgumentClass :: "error \<Rightarrow> bool" where
  "InvalidArgumentClass e =
     (case statusCode e of
        None \<Rightarrow> False
      | Some code \<Rightarrow> code = InvalidArgument \<or> code = StatusBadRequest)"

section \<open>The table scanner\<close>

text \<open>
  A summary maps a tenant to its count of rows: an association list with Go's reading of
  a map, where an absent key reads as zero.
\<close>

type_synonym summary = "(int \<times> int) list"

definition newSummary :: summary where
  "newSummary = []"

definition count_of :: "summary \<Rightarrow> int \<Rightarrow> int" where
  "count_of s k = (case map_of s k of None \<Rightarrow> 0 | Some v \<Rightarrow> v)"

definition add_count :: "int \<Rightarrow> int \<Rightarrow> summary \<Rightarrow> summary" where
  "add_count k v s = AList.update k (count_of s k + v) s"

definition accumulate :: "summary \<Rightarrow> summary \<Rightarrow> summary" where
  "accumulate s b = fold (\<lambda>(k, v). add_count k v) b s"

text \<open>\<^verbatim>\<open>print\<close> writes one line per pair of the map, in the order the map gives them.\<close>

definition print :: "summary \<Rightarrow> (int \<times> int) list" where
  "print s = s"

text \<open>
  \<^verbatim>\<open>chunk.OrgFromHash\<close>, the decoder of a chunk and \<^verbatim>\<open>IndexChunk\<close> of the reindex store
  are in other files: parameters. The scanner's world is the counter of pages by table,
  the reindex store and the log.
\<close>

record 'r ScanPkg =
  OrgFromHash :: "string \<Rightarrow> int"
  Decode :: "bytes \<Rightarrow> error + Chunk"
  IndexChunk :: "Chunk \<Rightarrow> 'r \<Rightarrow> error option \<times> 'r"

record handler =
  tableName :: string
  pages :: int
  orgs :: "int set"
  reindexTablePrefix :: string
  counts :: summary

record 'r scanner =
  pageCounter :: "string \<Rightarrow> nat"
  reindexStore :: 'r
  scanLog :: "string list"

definition newHandler :: "string \<Rightarrow> string \<Rightarrow> int set \<Rightarrow> handler" where
  "newHandler table prefix os =
     \<lparr>tableName = table, pages = 0, orgs = os, reindexTablePrefix = prefix, counts = newSummary\<rparr>"

text \<open>The body of the loop of \<^verbatim>\<open>handlePage\<close> for one row.\<close>

definition handleRow :: "'r ScanPkg \<Rightarrow> Row \<Rightarrow> handler \<times> 'r scanner \<Rightarrow> handler \<times> 'r scanner" where
  "handleRow p row hs =
     (case row of (hashValue, rangeValue, val) \<Rightarrow>
      case hs of (h, s) \<Rightarrow>
       (let org = OrgFromHash p hashValue in
        if org \<le> 0 then (h, s)
        else
          (let h' = h\<lparr>counts := add_count org 1 (counts h)\<rparr> in
           if org \<in> orgs h then (h', s)
           else if reindexTablePrefix h \<noteq> [] then
             (case Decode p val of
                Inl err \<Rightarrow> (h', s\<lparr>scanLog := scanLog s @ [''chunk decode error'']\<rparr>)
              | Inr ch \<Rightarrow>
                  (case IndexChunk p ch (reindexStore s) of
                     (Some err, r') \<Rightarrow>
                       (h', s\<lparr>reindexStore := r', scanLog := scanLog s @ [''indexing error'']\<rparr>)
                   | (None, r') \<Rightarrow> (h', s\<lparr>reindexStore := r'\<rparr>)))
           else (h', s))))"

definition handlePage :: "'r ScanPkg \<Rightarrow> handler \<Rightarrow> ReadBatch \<Rightarrow> 'r scanner \<Rightarrow> handler \<times> 'r scanner" where
  "handlePage p h page s =
     fold (handleRow p) page
       (h, s\<lparr>pageCounter := (pageCounter s)(tableName h := pageCounter s (tableName h) + 1)\<rparr>)"

text \<open>
  Modelled from the spec: \<^verbatim>\<open>Scan\<close> of the chunk store, which is in another file. It
  invokes the callback of segment \<open>i\<close> for each page of segment \<open>i\<close>; a handler's callback is
  serial with respect to itself. The segments are run one after another here: they share
  the counter and the reindex store only, and no handler reads another's counts.
\<close>

definition handlePages :: "'r ScanPkg \<Rightarrow> handler \<Rightarrow> ReadBatch list \<Rightarrow> 'r scanner \<Rightarrow> handler \<times> 'r scanner" where
  "handlePages p h pgs s = fold (\<lambda>page (h', s'). handlePage p h' page s') pgs (h, s)"

fun Scan :: "'r ScanPkg \<Rightarrow> handler list \<Rightarrow> ReadBatch list list \<Rightarrow> 'r scanner \<Rightarrow> handler list \<times> 'r scanner" where
  "Scan p (h # hs) (pgs # segs) s =
     (case handlePages p h pgs s of
        (h', s') \<Rightarrow> (case Scan p hs segs s' of (hs', s'') \<Rightarrow> (h' # hs', s'')))"
| "Scan p hs segs s = (hs, s)"

text \<open>
  The end of \<^verbatim>\<open>main\<close>: one handler per segment, the scan, the totals accumulated over
  the handlers in order, and the lines printed.
\<close>

definition totalsOf :: "handler list \<Rightarrow> summary" where
  "totalsOf hs = fold (\<lambda>h totals. accumulate totals (counts h)) hs newSummary"

definition scanAndPrint ::
  "'r ScanPkg \<Rightarrow> string \<Rightarrow> string \<Rightarrow> int set \<Rightarrow> ReadBatch list list \<Rightarrow> 'r scanner
     \<Rightarrow> (int \<times> int) list \<times> 'r scanner" where
  "scanAndPrint p table prefix os segs s =
     (let handlers = replicate (length segs) (newHandler table prefix os) in
      case Scan p handlers segs s of
        (handlers', s') \<Rightarrow> (print (totalsOf handlers'), s'))"

text \<open>
  The number of rows whose hash value belongs to tenant \<open>k\<close>, and what a summary of these
  rows is: one pair for each tenant with a positive id that has a row, with the number of
  its rows.
\<close>

definition rowsOf :: "'r ScanPkg \<Rightarrow> int \<Rightarrow> Row list \<Rightarrow> int" where
  "rowsOf p k rows = int (length (filter (\<lambda>row. OrgFromHash p (fst row) = k) rows))"

definition tallies :: "'r ScanPkg \<Rightarrow> Row list \<Rightarrow> summary \<Rightarrow> bool" where
  "tallies p rows s =
     (distinct (map fst s)
      \<and> (\<forall>k. map_of s k = (if 0 < k \<and> 0 < rowsOf p k rows then Some (rowsOf p k rows) else None)))"

section \<open>Contracts of the clients\<close>

text \<open>
  Modelled from the spec: the contracts of the \<^verbatim>\<open>ChunkClient\<close> and of the
  \<^verbatim>\<open>IndexClient\<close>, whose implementations are in other packages. The blob store is keyed
  by external key: for an observation \<open>holds\<close> of the keys a blob store holds, a successful
  \<^verbatim>\<open>PutChunks\<close> adds the keys of its chunks and a \<^verbatim>\<open>DeleteChunk\<close> that succeeds or
  reports the not-found sentinel leaves the key absent. An index entry is identified by
  its triple: for an observation \<open>rows\<close> of the triples an index holds, a successful
  \<^verbatim>\<open>BatchWrite\<close> applies the operations of the batch in order.
\<close>

definition blobContract :: "('i, 'c, 'k) store \<Rightarrow> ('c \<Rightarrow> string set) \<Rightarrow> bool" where
  "blobContract c holds =
     ((\<forall>cs b b'. PutChunks (storage (fetcher c)) cs b = (None, b') \<longrightarrow>
          holds b' = holds b \<union> ExternalKey (pkg c) ` set cs)
      \<and> (\<forall>k b e b'. Client_DeleteChunk (chunks c) k b = (e, b')
              \<and> (e = None \<or> e = Some ErrStorageObjectNotFound) \<longrightarrow>
          holds b' = holds b - {k}))"

fun applyTriple :: "BatchOp \<Rightarrow> (string \<times> string \<times> bytes) set \<Rightarrow> (string \<times> string \<times> bytes) set" where
  "applyTriple (Add t h r v) rows = insert (t, h, r) rows"
| "applyTriple (Delete t h r) rows = rows - {(t, h, r)}"

definition indexContract ::
  "('i, 'c, 'k) store \<Rightarrow> ('i \<Rightarrow> (string \<times> string \<times> bytes) set) \<Rightarrow> bool" where
  "indexContract c rows =
     (\<forall>batch i i'. BatchWrite (index c) batch i = (None, i') \<longrightarrow>
        rows i' = fold applyTriple batch (rows i))"






text \<open>The keys under which the encoded new chunks are stored.\<close>

definition encodedKeys :: "ChunkPkg \<Rightarrow> Chunk list \<Rightarrow> string list" where
  "encodedKeys p newChunks =
     concat (map (\<lambda>n. case Encode p n of Inl err \<Rightarrow> [] | Inr encoded \<Rightarrow> [ExternalKey p encoded])
               newChunks)"

text \<open>The new chunks a slice gives: the chunk when there is one.\<close>

definition kept :: "Chunk option \<Rightarrow> Chunk list" where
  "kept newChunk = (case newChunk of Some n \<Rightarrow> [n] | None \<Rightarrow> [])"

text \<open>\<^verbatim>\<open>errors.Cause\<close>: the error under the wrappings.\<close>

fun Cause :: "error \<Rightarrow> error" where
  "Cause (Wrapf msg err) = Cause err"
| "Cause err = err"

section \<open>An in-memory store\<close>

text \<open>
  A small instance of the collaborators, on which the model runs: an index that is a list
  of entries, a blob store and a cache that are association lists by external key, and a
  schema with one table that writes one row per chunk under the metric (once for each end
  of the interval) and one row per label. Each client takes the error it is to fail with,
  if any.
\<close>

type_synonym memIndex = "IndexEntry list"
type_synonym memBlobs = "(string \<times> Chunk) list"

definition entry_triple :: "IndexEntry \<Rightarrow> string \<times> string \<times> bytes" where
  "entry_triple e = (TableName e, HashValue e, RangeValue e)"

fun memApply :: "BatchOp \<Rightarrow> memIndex \<Rightarrow> memIndex" where
  "memApply (Add t h r v) i =
     filter (\<lambda>e. entry_triple e \<noteq> (t, h, r)) i
       @ [\<lparr>TableName = t, HashValue = h, RangeValue = r, EntryValue = v\<rparr>]"
| "memApply (Delete t h r) i = filter (\<lambda>e. entry_triple e \<noteq> (t, h, r)) i"

definition memIndexClient :: "error option \<Rightarrow> memIndex IndexClient" where
  "memIndexClient failure =
     \<lparr>BatchWrite = (\<lambda>batch i. case failure of Some e \<Rightarrow> (Some e, i) | None \<Rightarrow> (None, fold memApply batch i)),
      QueryPages = (\<lambda>queries i.
         (map (\<lambda>q. (q, map (\<lambda>e. (HashValue e, RangeValue e, EntryValue e))
                        (filter (\<lambda>e. TableName e = QTableName q \<and> HashValue e = QHashValue q) i)))
              queries,
          failure))\<rparr>"

definition memKey :: "Chunk \<Rightarrow> string" where
  "memKey chunk =
     UserID chunk @ ''/'' @
       [char_of (Fingerprint chunk), char_of (nat (From chunk)), char_of (nat (Through chunk)),
        char_of (Checksum chunk)]"

definition memParseKey :: "string \<Rightarrow> string \<Rightarrow> error + Chunk" where
  "memParseKey userID chunkID =
     (case drop (length userID) chunkID of
        [s, f, a, b, x] \<Rightarrow>
          if take (length userID) chunkID = userID \<and> s = CHR ''/''
          then Inr \<lparr>Fingerprint = of_char f, UserID = userID, From = int (of_char a),
                    Through = int (of_char b), Metric = [], Checksum = of_char x, Data = []\<rparr>
          else Inl (Errorf ''invalid chunk ID'')
      | _ \<Rightarrow> Inl (Errorf ''invalid chunk ID''))"

definition memClient :: "error option \<Rightarrow> memBlobs Client" where
  "memClient failure =
     \<lparr>PutChunks = (\<lambda>cs b. case failure of
                              Some e \<Rightarrow> (Some e, b)
                            | None \<Rightarrow> (None, fold (\<lambda>chunk. AList.update (memKey chunk) chunk) cs b)),
      Client_DeleteChunk = (\<lambda>k b. case map_of b k of
                                      None \<Rightarrow> (Some ErrStorageObjectNotFound, b)
                                    | Some chunk \<Rightarrow> (None, AList.delete k b))\<rparr>"

text \<open>The fetcher reads the cache, then the blob store, and writes what it fetched to the cache.\<close>

fun memFetch :: "string list \<Rightarrow> memBlobs \<Rightarrow> memBlobs \<Rightarrow> (error + Chunk list) \<times> memBlobs" where
  "memFetch [] b k = (Inr [], k)"
| "memFetch (key # keys) b k =
     (case map_of k key of
        Some chunk \<Rightarrow>
          (case memFetch keys b k of
             (Inl err, k') \<Rightarrow> (Inl err, k')
           | (Inr cs, k') \<Rightarrow> (Inr (chunk # cs), k'))
      | None \<Rightarrow>
          (case map_of b key of
             None \<Rightarrow> (Inl ErrStorageObjectNotFound, k)
           | Some chunk \<Rightarrow>
               (case memFetch keys b (AList.update key chunk k) of
                  (Inl err, k') \<Rightarrow> (Inl err, k')
                | (Inr cs, k') \<Rightarrow> (Inr (chunk # cs), k'))))"

definition memFetcher :: "error option \<Rightarrow> error option \<Rightarrow> (memBlobs, memBlobs) Fetcher" where
  "memFetcher putFailure cacheFailure =
     \<lparr>storage = memClient putFailure,
      FetchChunks = (\<lambda>cs keys b k. memFetch keys b k),
      writeBackCache = (\<lambda>cs k. case cacheFailure of
                                  Some e \<Rightarrow> (Some e, k)
                                | None \<Rightarrow> (None, fold (\<lambda>chunk. AList.update (memKey chunk) chunk) cs k))\<rparr>"

definition memRow :: "string \<Rightarrow> string \<Rightarrow> string \<Rightarrow> IndexEntry" where
  "memRow h key v = \<lparr>TableName = ''t'', HashValue = h, RangeValue = key, EntryValue = v\<rparr>"

definition memSchema :: Schema where
  "memSchema =
     \<lparr>GetWriteEntries = (\<lambda>from through userID metricName ls key.
         Inr ([memRow (userID @ '':'' @ metricName) key [], memRow (userID @ '':'' @ metricName) key []]
              @ map (\<lambda>(n, v). memRow (userID @ '':'' @ metricName @ '':'' @ n) key v)
                  (filter (\<lambda>(n, v). n \<noteq> MetricName) ls))),
      GetReadQueriesForMetric = (\<lambda>from through userID metricName.
         Inr [\<lparr>QTableName = ''t'', QHashValue = userID @ '':'' @ metricName, QRangeValuePrefix = []\<rparr>]),
      GetReadQueriesForMetricLabel = (\<lambda>from through userID metricName labelName.
         Inr [\<lparr>QTableName = ''t'', QHashValue = userID @ '':'' @ metricName @ '':'' @ labelName,
               QRangeValuePrefix = []\<rparr>]),
      GetReadQueriesForMetricLabelValue = (\<lambda>from through userID metricName labelName labelValue.
         Inr [\<lparr>QTableName = ''t'', QHashValue = userID @ '':'' @ metricName @ '':'' @ labelName,
               QRangeValuePrefix = []\<rparr>])\<rparr>"

text \<open>
  Slicing keeps the chunk on the new interval when it has data and the interval is not
  empty; encoding recomputes the checksum from the payload.
\<close>

definition memPkg :: ChunkPkg where
  "memPkg =
     \<lparr>ExternalKey = memKey,
      ParseExternalKey = memParseKey,
      parseChunkTimeRangeValue = (\<lambda>r v. Inr (r, v, [])),
      Slice = (\<lambda>chunk from through.
         if Data chunk = [] \<or> through < from then (None, Some ErrSliceNoDataInRange)
         else (Some (chunk\<lparr>From := from, Through := through\<rparr>), None)),
      Encode = (\<lambda>chunk. Inr (chunk\<lparr>Checksum := length (Data chunk)\<rparr>))\<rparr>"

definition memLimits :: "Duration \<Rightarrow> int \<Rightarrow> StoreLimits" where
  "memLimits maxLength maxChunks =
     \<lparr>MaxQueryLength = (\<lambda>userID. maxLength), MaxChunksPerQuery = (\<lambda>userID. maxChunks)\<rparr>"

record memConfig =
  putFailure :: "error option"
  cacheFailure :: "error option"
  indexFailure :: "error option"
  lookBack :: Duration
  maxLength :: Duration
  maxChunks :: int

definition memStore :: "memConfig \<Rightarrow> (memIndex, memBlobs, memBlobs) store" where
  "memStore cfg =
     \<lparr>MaxLookBackPeriod = lookBack cfg,
      index = memIndexClient (indexFailure cfg),
      chunks = memClient (putFailure cfg),
      schema = memSchema,
      limits = memLimits (maxLength cfg) (maxChunks cfg),
      fetcher = memFetcher (putFailure cfg) (cacheFailure cfg),
      pkg = memPkg\<rparr>"

definition plainConfig :: memConfig where
  "plainConfig =
     \<lparr>putFailure = None, cacheFailure = None, indexFailure = None, lookBack = 0, maxLength = 0,
      maxChunks = 0\<rparr>"

definition emptyWorld :: "(memIndex, memBlobs, memBlobs) world" where
  "emptyWorld = \<lparr>idx = [], blobs = [], cache = [], logged = []\<rparr>"

text \<open>The chunk of tenant 7 with metric \<^verbatim>\<open>http_requests\<close>, label \<^verbatim>\<open>job=api\<close>, interval 10 to 20.\<close>

definition chunkA :: Chunk where
  "chunkA =
     \<lparr>Fingerprint = 1, UserID = ''7'', From = 10, Through = 20,
      Metric = [(''__name__'', ''http_requests''), (''job'', ''api'')], Checksum = 3, Data = ''abc''\<rparr>"

text \<open>The same chunk without its metric name.\<close>

definition chunkNoName :: Chunk where
  "chunkNoName = chunkA\<lparr>Metric := [(''job'', ''api'')]\<rparr>"

definition eqMatcher :: "string \<Rightarrow> string \<Rightarrow> Matcher" where
  "eqMatcher n v = \<lparr>Type = MatchEqual, Name = n, Value = v, re = (\<lambda>s. False)\<rparr>"

definition neqMatcher :: "string \<Rightarrow> string \<Rightarrow> Matcher" where
  "neqMatcher n v = \<lparr>Type = MatchNotEqual, Name = n, Value = v, re = (\<lambda>s. False)\<rparr>"

text \<open>
  Configurations with a limit of 5 milliseconds on the length of a query, and with a
  failing client.
\<close>

definition limitedConfig :: memConfig where
  "limitedConfig = plainConfig\<lparr>maxLength := 5 * minimumTick\<rparr>"

definition putFailing :: memConfig where
  "putFailing = plainConfig\<lparr>putFailure := Some (Errorf ''put failed'')\<rparr>"

definition cacheFailing :: memConfig where
  "cacheFailing = plainConfig\<lparr>cacheFailure := Some (Errorf ''cache down'')\<rparr>"

definition indexFailing :: memConfig where
  "indexFailing = plainConfig\<lparr>indexFailure := Some (Errorf ''index down'')\<rparr>"

text \<open>
  A bucket store that counts the requests it has served and answers with the request, and
  a server with one tenant.
\<close>

definition countingStore :: "nat BucketStore" where
  "countingStore =
     \<lparr>BucketStore_Info = (\<lambda>s req. ((Some req, None), Suc s)),
      BucketStore_Series = (\<lambda>s req. (([req], None), Suc s)),
      BucketStore_LabelNames = (\<lambda>s req. ((Some req, None), Suc s)),
      BucketStore_LabelValues = (\<lambda>s req. ((Some req, None), Suc s))\<rparr>"

definition oneTenant :: "nat UserStore" where
  "oneTenant = \<lparr>stores = [''tenant-a'' \<mapsto> 0]\<rparr>"

text \<open>
  A scanner whose tenant is the leading digit of the hash value (\<open>-1\<close> when there is none),
  and the table of scenario S6: five rows of tenant 3, two of tenant 8 and one row without
  a tenant, in three pages over two segments.
\<close>

definition digitOrg :: "string \<Rightarrow> int" where
  "digitOrg h =
     (case h of
        [] \<Rightarrow> - 1
      | c # cs \<Rightarrow> if CHR ''0'' \<le> c \<and> c \<le> CHR ''9'' then int (of_char c) - 48 else - 1)"

definition digitScan :: "unit ScanPkg" where
  "digitScan =
     \<lparr>OrgFromHash = digitOrg,
      Decode = (\<lambda>v. Inl (Errorf ''invalid chunk'')),
      IndexChunk = (\<lambda>ch r. (None, r))\<rparr>"

definition tableS6 :: "ReadBatch list list" where
  "tableS6 =
     [[[(''3:a'', ''r1'', []), (''8:a'', ''r2'', []), (''3:b'', ''r3'', [])],
       [(''x:a'', ''r4'', []), (''3:a'', ''r5'', [])]],
      [[(''8:b'', ''r6'', []), (''3:c'', ''r7'', []), (''3:c'', ''r8'', [])]]]"

definition freshScanner :: "unit scanner" where
  "freshScanner = \<lparr>pageCounter = (\<lambda>table. 0), reindexStore = (), scanLog = []\<rparr>"




text \<open>The store that holds the first chunk, and the two chunks a deletion from 12 to 15 leaves.\<close>

definition storedA :: "(memIndex, memBlobs, memBlobs) world" where
  "storedA = snd (PutOne (memStore plainConfig) 10 20 chunkA emptyWorld)"

definition chunkA1 :: Chunk where
  "chunkA1 = chunkA\<lparr>Through := 11\<rparr>"

definition chunkA2 :: Chunk where
  "chunkA2 = chunkA\<lparr>From := 16\<rparr>"




section \<open>Deduplication of index entries\<close>

lemma entry_key_triple: "entry_key e = triple_key (op_triple (entry_op e))"
  by (simp add: entry_key_def triple_key_def entry_op_def)

lemma dedupEntries_distinct:
  "distinct (map op_triple result) \<Longrightarrow> triple_key ` op_triple ` set result \<subseteq> seen
   \<Longrightarrow> distinct (map op_triple (dedupEntries es seen result))"
proof (induction es arbitrary: seen result)
  case Nil
  then show ?case by simp
next
  case (Cons e es)
  show ?case
  proof (cases "entry_key e \<in> seen")
    case True
    then show ?thesis using Cons by (simp add: Let_def)
  next
    case False
    have new: "op_triple (entry_op e) \<notin> op_triple ` set result"
    proof
      assume "op_triple (entry_op e) \<in> op_triple ` set result"
      then have "triple_key (op_triple (entry_op e)) \<in> triple_key ` op_triple ` set result"
        by (rule imageI)
      with Cons.prems(2) have "entry_key e \<in> seen"
        by (auto simp: entry_key_triple)
      with False show False by simp
    qed
    have d: "distinct (map op_triple (result @ [entry_op e]))"
      using Cons.prems(1) new by simp
    have s: "triple_key ` op_triple ` set (result @ [entry_op e]) \<subseteq> insert (entry_key e) seen"
      using Cons.prems(2) by (auto simp: entry_key_triple)
    from Cons.IH [OF d s] False show ?thesis
      by (simp add: Let_def entry_op_def)
  qed
qed

lemma dedupEntries_set:
  "set (dedupEntries es seen result) \<subseteq> set result \<union> entry_op ` set es"
proof (induction es arbitrary: seen result)
  case Nil
  then show ?case by simp
next
  case (Cons e es)
  have "set (dedupEntries es (insert (entry_key e) seen) (result @ [entry_op e]))
          \<subseteq> set (result @ [entry_op e]) \<union> entry_op ` set es"
    by (rule Cons.IH)
  moreover have "set (dedupEntries es seen result) \<subseteq> set result \<union> entry_op ` set es"
    by (rule Cons.IH)
  ultimately show ?case
    by (auto simp: Let_def entry_op_def [symmetric])
qed

lemma dedupEntries_mono: "set result \<subseteq> set (dedupEntries es seen result)"
proof (induction es arbitrary: seen result)
  case Nil
  then show ?case by simp
next
  case (Cons e es)
  have "set (result @ [entry_op e]) \<subseteq> set (dedupEntries es (insert (entry_key e) seen) (result @ [entry_op e]))"
    by (rule Cons.IH)
  moreover have "set result \<subseteq> set (dedupEntries es seen result)"
    by (rule Cons.IH)
  ultimately show ?case
    by (auto simp: Let_def entry_op_def [symmetric])
qed

lemma dedupEntries_keys:
  "triple_key ` op_triple ` set result \<subseteq> seen \<Longrightarrow> seen \<subseteq> triple_key ` op_triple ` set result \<Longrightarrow>
   entry_key ` set es \<subseteq> triple_key ` op_triple ` set (dedupEntries es seen result)"
proof (induction es arbitrary: seen result)
  case Nil
  then show ?case by simp
next
  case (Cons e es)
  note mono = dedupEntries_mono
  show ?case
  proof (cases "entry_key e \<in> seen")
    case True
    with Cons.prems have "entry_key e \<in> triple_key ` op_triple ` set result" by auto
    moreover have "set result \<subseteq> set (dedupEntries es seen result)" by (rule mono)
    ultimately have "entry_key e \<in> triple_key ` op_triple ` set (dedupEntries es seen result)" by auto
    with Cons.IH [OF Cons.prems] True show ?thesis by (simp add: Let_def)
  next
    case False
    let ?r = "result @ [entry_op e]"
    have a: "triple_key ` op_triple ` set ?r \<subseteq> insert (entry_key e) seen"
      using Cons.prems(1) by (auto simp: entry_key_triple)
    have b: "insert (entry_key e) seen \<subseteq> triple_key ` op_triple ` set ?r"
      using Cons.prems(2) by (auto simp: entry_key_triple)
    have "set ?r \<subseteq> set (dedupEntries es (insert (entry_key e) seen) ?r)" by (rule mono)
    then have "entry_key e \<in> triple_key ` op_triple ` set (dedupEntries es (insert (entry_key e) seen) ?r)"
      by (auto simp: entry_key_triple)
    with Cons.IH [OF a b] False show ?thesis by (simp add: Let_def entry_op_def)
  qed
qed

section \<open>Unfolding the in-memory store\<close>

lemmas mem_defs =
  memStore_def plainConfig_def limitedConfig_def putFailing_def cacheFailing_def indexFailing_def
  memLimits_def memFetcher_def memClient_def memIndexClient_def memSchema_def memPkg_def memRow_def
  memKey_def emptyWorld_def chunkA_def chunkNoName_def eqMatcher_def neqMatcher_def

lemmas store_defs =
  calculateIndexEntries_def Labels_Get_def MetricName_def NewWriteBatch_def entry_key_def hex_def
  entry_triple_def

text \<open>
  Claim C7. For every chunk and time range, the write batch that
  \<^verbatim>\<open>calculateIndexEntries\<close> produces holds no two entries with the same triple of table
  name, hash value and range value, however many duplicates the schema's
  \<^verbatim>\<open>GetWriteEntries\<close> emits. The batch holds nothing but additions of emitted entries,
  and the key of every emitted entry is the key of an entry of the batch.
\<close>

theorem calculateIndexEntries_no_duplicates:
  assumes "calculateIndexEntries c userID from through chunk = Inr batch"
  shows "distinct (map op_triple batch)
         \<and> (\<exists>entries. GetWriteEntries (schema c) from through userID
                          (Labels_Get (Metric chunk) MetricName) (Metric chunk)
                          (ExternalKey (pkg c) chunk) = Inr entries
                \<and> set batch \<subseteq> entry_op ` set entries
                \<and> entry_key ` set entries \<subseteq> triple_key ` op_triple ` set batch)"
proof -
  from assms obtain entries where
    e: "GetWriteEntries (schema c) from through userID (Labels_Get (Metric chunk) MetricName)
          (Metric chunk) (ExternalKey (pkg c) chunk) = Inr entries"
    and b: "batch = dedupEntries entries {} []"
    by (auto simp: calculateIndexEntries_def Let_def NewWriteBatch_def split: if_splits sum.splits)
  have "distinct (map op_triple (dedupEntries entries {} []))"
    by (rule dedupEntries_distinct) simp_all
  moreover have "set (dedupEntries entries {} []) \<subseteq> entry_op ` set entries"
    using dedupEntries_set [of entries "{}" "[]"] by simp
  moreover have "entry_key ` set entries \<subseteq> triple_key ` op_triple ` set (dedupEntries entries {} [])"
    by (rule dedupEntries_keys) simp_all
  ultimately show ?thesis using e b by blast
qed

text \<open>
  The in-memory schema emits the row of the metric twice; the batch for the chunk of
  tenant 7 holds it once.
\<close>

theorem calculateIndexEntries_no_duplicates_witness:
  "calculateIndexEntries (memStore plainConfig) ''7'' 10 20 chunkA =
     Inr [Add ''t'' ''7:http_requests'' (memKey chunkA) [],
          Add ''t'' ''7:http_requests:job'' (memKey chunkA) ''api'']
   \<and> distinct (map op_triple
        [Add ''t'' ''7:http_requests'' (memKey chunkA) [],
         Add ''t'' ''7:http_requests:job'' (memKey chunkA) ''api''])"
proof -
  have h: "calculateIndexEntries (memStore plainConfig) ''7'' 10 20 chunkA =
     Inr [Add ''t'' ''7:http_requests'' (memKey chunkA) [],
          Add ''t'' ''7:http_requests:job'' (memKey chunkA) ''api'']"
    by (simp add: calculateIndexEntries_def memStore_def plainConfig_def chunkA_def memSchema_def
        memPkg_def Labels_Get_def MetricName_def memRow_def NewWriteBatch_def entry_key_def hex_def
        memKey_def)
  from calculateIndexEntries_no_duplicates [OF h] h show ?thesis by blast
qed

section \<open>Validation of a query\<close>

lemma int64_id: "- (2 ^ 63) \<le> x \<Longrightarrow> x < 2 ^ 63 \<Longrightarrow> int64 x = x"
  by (simp add: int64_def)

lemma Time_Sub_exact:
  assumes "from \<le> through" and "(through - from) * minimumTick < 2 ^ 63"
  shows "Time_Sub through from = (through - from) * minimumTick"
proof -
  have d: "0 \<le> through - from" using assms(1) by simp
  have "through - from \<le> (through - from) * minimumTick"
    using d by (simp add: minimumTick_def)
  with assms(2) have "through - from < 2 ^ 63" by linarith
  with d have a: "int64 (through - from) = through - from"
    by (intro int64_id) simp_all
  have "0 \<le> (through - from) * minimumTick"
    using d by (simp add: minimumTick_def)
  with assms(2) have "int64 ((through - from) * minimumTick) = (through - from) * minimumTick"
    by (intro int64_id) simp_all
  with a show ?thesis by (simp add: Time_Sub_def)
qed

text \<open>
  Claim C6, as stated: whenever the range of a query is longer than the tenant's
  \<^verbatim>\<open>MaxQueryLength\<close> the call fails. It does not when the limit is zero, which
  switches the check off: with no limit configured, the range from 0 to 1 is longer than
  the limit of zero and passes. Nor does it when the length of the range in nanoseconds
  does not fit 64 bits: with a limit of 5 milliseconds, the range from 0 to the largest
  timestamp has a length that wraps around to a negative duration, and passes.
\<close>

theorem query_length_counterexample:
  "(0::int) \<le> 1
   \<and> MaxQueryLength (limits (memStore plainConfig)) ''7'' < (1 - 0) * minimumTick
   \<and> validateQueryTimeRange (memStore plainConfig) ''7'' 0 1 100 100 = Inr (False, 0, 1)
   \<and> (0::int) \<le> 9223372036854775807
   \<and> 0 < MaxQueryLength (limits (memStore limitedConfig)) ''7''
   \<and> MaxQueryLength (limits (memStore limitedConfig)) ''7'' < (9223372036854775807 - 0) * minimumTick
   \<and> Time_Sub 9223372036854775807 0 = - 1000000
   \<and> validateQueryTimeRange (memStore limitedConfig) ''7'' 0 9223372036854775807 100 100
       = Inr (False, 0, 100)"
  by (simp add: validateQueryTimeRange_def memStore_def plainConfig_def limitedConfig_def
      memLimits_def fiveMinutes_def Time_Sub_def Time_Add_def truncDiv_def int64_def minimumTick_def)

text \<open>
  Claim C6, amended. For every tenant and every query with \<open>through \<ge> from\<close> whose length
  in nanoseconds, \<open>(through - from) * 1000000\<close>, fits a 64-bit duration: if the tenant's
  \<^verbatim>\<open>MaxQueryLength\<close> is positive and the length exceeds it, the validation of the time
  range fails with the HTTP 400 query-too-long error, and so do \<^verbatim>\<open>Get\<close>,
  \<^verbatim>\<open>LabelValuesForMetricName\<close> and \<^verbatim>\<open>LabelNamesForMetricName\<close>, leaving the state as
  it was; otherwise (the limit is not positive, or the range is within it) the validation
  of the time range returns no error.
\<close>

theorem query_length_limit:
  assumes "from \<le> through" and "(through - from) * minimumTick < 2 ^ 63"
  shows "(0 < MaxQueryLength (limits c) userID
            \<and> MaxQueryLength (limits c) userID < (through - from) * minimumTick \<longrightarrow>
            validateQueryTimeRange c userID from through now now2
              = Inl (HTTPError StatusBadRequest ErrQueryTooLong)
            \<and> Get c userID from through ms now now2 sched w
              = (Inl (HTTPError StatusBadRequest ErrQueryTooLong), w)
            \<and> LabelValuesForMetricName c userID from through metricName labelName now now2 w
              = (Inl (HTTPError StatusBadRequest ErrQueryTooLong), w)
            \<and> LabelNamesForMetricName c userID from through metricName now now2 sched w
              = (Inl (HTTPError StatusBadRequest ErrQueryTooLong), w))
       \<and> (\<not> (0 < MaxQueryLength (limits c) userID
               \<and> MaxQueryLength (limits c) userID < (through - from) * minimumTick) \<longrightarrow>
            (\<exists>r. validateQueryTimeRange c userID from through now now2 = Inr r))"
proof (intro conjI impI)
  note sub = Time_Sub_exact [OF assms]
  assume long: "0 < MaxQueryLength (limits c) userID
      \<and> MaxQueryLength (limits c) userID < (through - from) * minimumTick"
  with assms(1) show v: "validateQueryTimeRange c userID from through now now2
      = Inl (HTTPError StatusBadRequest ErrQueryTooLong)"
    by (simp add: validateQueryTimeRange_def Let_def sub)
  show "Get c userID from through ms now now2 sched w
      = (Inl (HTTPError StatusBadRequest ErrQueryTooLong), w)"
    by (simp add: Get_def validateQuery_def v)
  show "LabelValuesForMetricName c userID from through metricName labelName now now2 w
      = (Inl (HTTPError StatusBadRequest ErrQueryTooLong), w)"
    by (simp add: LabelValuesForMetricName_def v)
  show "LabelNamesForMetricName c userID from through metricName now now2 sched w
      = (Inl (HTTPError StatusBadRequest ErrQueryTooLong), w)"
    by (simp add: LabelNamesForMetricName_def v)
next
  note sub = Time_Sub_exact [OF assms]
  assume "\<not> (0 < MaxQueryLength (limits c) userID
      \<and> MaxQueryLength (limits c) userID < (through - from) * minimumTick)"
  with assms(1) show "\<exists>r. validateQueryTimeRange c userID from through now now2 = Inr r"
    by (auto simp: validateQueryTimeRange_def Let_def sub)
qed

text \<open>
  With a limit of 5 milliseconds, the range from 0 to 10 is refused and the range from 0
  to 3 passes; with no limit the range from 0 to 10 passes.
\<close>

theorem query_length_limit_witness:
  "validateQueryTimeRange (memStore limitedConfig) ''7'' 0 10 100 100
     = Inl (HTTPError StatusBadRequest ErrQueryTooLong)
   \<and> Get (memStore limitedConfig) ''7'' 0 10 [eqMatcher ''__name__'' ''http_requests''] 100 100 [] emptyWorld
     = (Inl (HTTPError StatusBadRequest ErrQueryTooLong), emptyWorld)
   \<and> LabelValuesForMetricName (memStore limitedConfig) ''7'' 0 10 ''http_requests'' ''job'' 100 100 emptyWorld
     = (Inl (HTTPError StatusBadRequest ErrQueryTooLong), emptyWorld)
   \<and> LabelNamesForMetricName (memStore limitedConfig) ''7'' 0 10 ''http_requests'' 100 100 [] emptyWorld
     = (Inl (HTTPError StatusBadRequest ErrQueryTooLong), emptyWorld)
   \<and> (\<exists>r. validateQueryTimeRange (memStore limitedConfig) ''7'' 0 3 100 100 = Inr r)
   \<and> (\<exists>r. validateQueryTimeRange (memStore plainConfig) ''7'' 0 10 100 100 = Inr r)"
proof -
  have le: "(0::int) \<le> 10" "(0::int) \<le> 3" by simp_all
  have fits: "((10::int) - 0) * minimumTick < 2 ^ 63" "((3::int) - 0) * minimumTick < 2 ^ 63"
    by (simp_all add: minimumTick_def)
  have long: "0 < MaxQueryLength (limits (memStore limitedConfig)) ''7''
      \<and> MaxQueryLength (limits (memStore limitedConfig)) ''7'' < (10 - 0) * minimumTick"
    by (simp add: memStore_def limitedConfig_def plainConfig_def memLimits_def minimumTick_def)
  have short: "\<not> (0 < MaxQueryLength (limits (memStore limitedConfig)) ''7''
      \<and> MaxQueryLength (limits (memStore limitedConfig)) ''7'' < (3 - 0) * minimumTick)"
    by (simp add: memStore_def limitedConfig_def plainConfig_def memLimits_def minimumTick_def)
  have off: "\<not> (0 < MaxQueryLength (limits (memStore plainConfig)) ''7''
      \<and> MaxQueryLength (limits (memStore plainConfig)) ''7'' < (10 - 0) * minimumTick)"
    by (simp add: memStore_def plainConfig_def memLimits_def)
  from query_length_limit [OF le(1) fits(1), of "memStore limitedConfig" "''7''" 100 100
      "[eqMatcher ''__name__'' ''http_requests'']" "[]" emptyWorld "''http_requests''" "''job''"] long
  have a: "validateQueryTimeRange (memStore limitedConfig) ''7'' 0 10 100 100
             = Inl (HTTPError StatusBadRequest ErrQueryTooLong)
           \<and> Get (memStore limitedConfig) ''7'' 0 10 [eqMatcher ''__name__'' ''http_requests''] 100 100 [] emptyWorld
             = (Inl (HTTPError StatusBadRequest ErrQueryTooLong), emptyWorld)
           \<and> LabelValuesForMetricName (memStore limitedConfig) ''7'' 0 10 ''http_requests'' ''job'' 100 100 emptyWorld
             = (Inl (HTTPError StatusBadRequest ErrQueryTooLong), emptyWorld)
           \<and> LabelNamesForMetricName (memStore limitedConfig) ''7'' 0 10 ''http_requests'' 100 100 [] emptyWorld
             = (Inl (HTTPError StatusBadRequest ErrQueryTooLong), emptyWorld)"
    by blast
  from query_length_limit [OF le(2) fits(2), of "memStore limitedConfig" "''7''" 100 100] short
  have b: "\<exists>r. validateQueryTimeRange (memStore limitedConfig) ''7'' 0 3 100 100 = Inr r"
    by blast
  from query_length_limit [OF le(1) fits(1), of "memStore plainConfig" "''7''" 100 100] off
  have c: "\<exists>r. validateQueryTimeRange (memStore plainConfig) ''7'' 0 10 100 100 = Inr r"
    by blast
  from a b c show ?thesis by blast
qed

lemma MetricNameMatcherFromMatchers_found:
  "MetricNameMatcherFromMatchers ms = (Some m, out, ok) \<Longrightarrow> m \<in> set ms \<and> Name m = MetricName"
  by (induction ms arbitrary: out ok) (auto split: if_splits prod.splits)

lemma validateQueryTimeRange_no_shortcut:
  "validateQueryTimeRange c userID from through now now2 = Inr (shortcut, from', through')
   \<Longrightarrow> from \<le> now \<Longrightarrow> \<not> shortcut"
  by (auto simp: validateQueryTimeRange_def Let_def split: if_splits)

text \<open>
  Claim C5, as stated: a \<^verbatim>\<open>Get\<close> whose time range passes validation and whose matchers
  hold no equality matcher on the metric-name label fails with the HTTP 400 error
  \<^verbatim>\<open>query must contain metric name\<close>. It does not when the range starts after now: the
  validation of the range passes, with the shortcut for a range in the future, and
  \<^verbatim>\<open>Get\<close> returns no chunks and no error before it looks at the matchers. With the clock
  at 100, the query of tenant 7 from 150 to 180 with the matcher \<^verbatim>\<open>job=api\<close> only.
\<close>

theorem Get_future_range_counterexample:
  "validateQueryTimeRange (memStore plainConfig) ''7'' 150 180 100 100 = Inr (True, 150, 180)
   \<and> Name (eqMatcher ''job'' ''api'') \<noteq> MetricName
   \<and> validateQuery (memStore plainConfig) ''7'' 150 180 [eqMatcher ''job'' ''api''] 100 100
       = Inr ([], [], True, 150, 180)
   \<and> Get (memStore plainConfig) ''7'' 150 180 [eqMatcher ''job'' ''api''] 100 100 []
         (snd (PutOne (memStore plainConfig) 10 20 chunkA emptyWorld))
       = (Inr [], snd (PutOne (memStore plainConfig) 10 20 chunkA emptyWorld))"
proof -
  have v: "validateQueryTimeRange (memStore plainConfig) ''7'' 150 180 100 100 = Inr (True, 150, 180)"
    by (simp add: validateQueryTimeRange_def memStore_def plainConfig_def memLimits_def)
  have n: "Name (eqMatcher ''job'' ''api'') \<noteq> MetricName"
    by (simp add: eqMatcher_def MetricName_def)
  have q: "validateQuery (memStore plainConfig) ''7'' 150 180 [eqMatcher ''job'' ''api''] 100 100
       = Inr ([], [], True, 150, 180)"
    by (simp add: validateQuery_def v)
  have g: "Get (memStore plainConfig) ''7'' 150 180 [eqMatcher ''job'' ''api''] 100 100 []
         (snd (PutOne (memStore plainConfig) 10 20 chunkA emptyWorld))
       = (Inr [], snd (PutOne (memStore plainConfig) 10 20 chunkA emptyWorld))"
    by (simp add: Get_def q)
  from v n q g show ?thesis by blast
qed

text \<open>
  Claim C5, amended. When the time range of a \<^verbatim>\<open>Get\<close> passes its validation and does not
  start after now, and no matcher is an equality matcher on the metric-name label (there
  is no matcher on that label, or none of them is an equality), \<^verbatim>\<open>Get\<close> fails with
  the HTTP 400 error \<^verbatim>\<open>query must contain metric name\<close> and leaves the state as it was.
  No index lookup is performed: the result is the same whatever index client, schema and
  fetcher the store has.
\<close>

theorem Get_requires_metric_name:
  assumes "validateQueryTimeRange c userID from through now now2 = Inr (shortcut, from', through')"
    and "from \<le> now"
    and "\<forall>m \<in> set ms. Name m = MetricName \<longrightarrow> Type m \<noteq> MatchEqual"
  shows "Get (c\<lparr>index := ic, schema := sc, fetcher := fe\<rparr>) userID from through ms now now2 sched w
         = (Inl (HTTPError StatusBadRequest ''query must contain metric name''), w)"
proof -
  from validateQueryTimeRange_no_shortcut [OF assms(1,2)]
  have r: "validateQueryTimeRange c userID from through now now2 = Inr (False, from', through')"
    using assms(1) by simp
  have v: "validateQueryTimeRange (c\<lparr>index := ic, schema := sc, fetcher := fe\<rparr>) userID from through now now2
      = Inr (False, from', through')"
  proof -
    have "validateQueryTimeRange (c\<lparr>index := ic, schema := sc, fetcher := fe\<rparr>) userID from through now now2
        = validateQueryTimeRange c userID from through now now2"
      by (simp add: validateQueryTimeRange_def Let_def)
    with r show ?thesis by simp
  qed
  obtain found out ok where x: "MetricNameMatcherFromMatchers ms = (found, out, ok)"
    by (cases "MetricNameMatcherFromMatchers ms") auto
  show ?thesis
  proof (cases found)
    case None
    with v x show ?thesis by (simp add: Get_def validateQuery_def)
  next
    case (Some m)
    with x assms(3) have "Type m \<noteq> MatchEqual"
      using MetricNameMatcherFromMatchers_found [of ms m out ok] by blast
    with v x Some show ?thesis by (simp add: Get_def validateQuery_def)
  qed
qed

text \<open>
  The query of tenant 7 from 15 to 18 with the matcher \<^verbatim>\<open>job=api\<close> only, and with a
  matcher \<^verbatim>\<open>__name__!=x\<close>, on a store that holds a chunk.
\<close>

theorem Get_requires_metric_name_witness:
  "Get (memStore plainConfig) ''7'' 15 18 [eqMatcher ''job'' ''api''] 100 100 []
       (snd (PutOne (memStore plainConfig) 10 20 chunkA emptyWorld))
     = (Inl (HTTPError StatusBadRequest ''query must contain metric name''),
        snd (PutOne (memStore plainConfig) 10 20 chunkA emptyWorld))
   \<and> Get (memStore plainConfig) ''7'' 15 18 [neqMatcher ''__name__'' ''x''] 100 100 []
       (snd (PutOne (memStore plainConfig) 10 20 chunkA emptyWorld))
     = (Inl (HTTPError StatusBadRequest ''query must contain metric name''),
        snd (PutOne (memStore plainConfig) 10 20 chunkA emptyWorld))"
proof -
  have v: "validateQueryTimeRange (memStore plainConfig) ''7'' 15 18 100 100 = Inr (False, 15, 18)"
    by (simp add: validateQueryTimeRange_def memStore_def plainConfig_def memLimits_def
        fiveMinutes_def Time_Add_def truncDiv_def int64_def minimumTick_def)
  have le: "(15::int) \<le> 100" by simp
  have m1: "\<forall>m \<in> set [eqMatcher ''job'' ''api'']. Name m = MetricName \<longrightarrow> Type m \<noteq> MatchEqual"
    by (simp add: eqMatcher_def MetricName_def)
  have m2: "\<forall>m \<in> set [neqMatcher ''__name__'' ''x'']. Name m = MetricName \<longrightarrow> Type m \<noteq> MatchEqual"
    by (simp add: neqMatcher_def MetricName_def)
  have same: "(memStore plainConfig)\<lparr>index := index (memStore plainConfig),
      schema := schema (memStore plainConfig), fetcher := fetcher (memStore plainConfig)\<rparr>
      = memStore plainConfig"
    by simp
  from Get_requires_metric_name [OF v le m1, where ic = "index (memStore plainConfig)"
      and sc = "schema (memStore plainConfig)" and fe = "fetcher (memStore plainConfig)"]
    Get_requires_metric_name [OF v le m2, where ic = "index (memStore plainConfig)"
      and sc = "schema (memStore plainConfig)" and fe = "fetcher (memStore plainConfig)"]
  show ?thesis unfolding same by blast
qed

section \<open>The write path\<close>

lemma Labels_Get_absent: "n \<notin> fst ` set ls \<Longrightarrow> Labels_Get ls n = []"
  by (simp add: Labels_Get_def map_of_eq_None_iff [THEN iffD2])

text \<open>
  Claim C10. For a chunk whose label set has no \<^verbatim>\<open>__name__\<close> label, \<^verbatim>\<open>PutOne\<close> first
  writes the payload with \<^verbatim>\<open>PutChunks\<close> and only then fails with
  \<^verbatim>\<open>ErrMetricNameLabelMissing\<close>: when \<^verbatim>\<open>PutChunks\<close> has succeeded and left the blob
  store \<open>b'\<close>, the call returns that error, the blob store is \<open>b'\<close> (the payload is not taken
  back) and the index is untouched.
\<close>

theorem PutOne_missing_metric_name:
  assumes "MetricName \<notin> fst ` set (Metric chunk)"
    and "PutChunks (storage (fetcher c)) [chunk] (blobs w) = (None, b')"
  shows "fst (PutOne c from through chunk w) = Some ErrMetricNameLabelMissing
         \<and> blobs (snd (PutOne c from through chunk w)) = b'
         \<and> idx (snd (PutOne c from through chunk w)) = idx w"
proof -
  have "calculateIndexEntries c (UserID chunk) from through chunk = Inl ErrMetricNameLabelMissing"
    using Labels_Get_absent [OF assms(1)] by (simp add: calculateIndexEntries_def)
  with assms(2) show ?thesis
    by (simp add: PutOne_def split: prod.splits)
qed

text \<open>
  On the empty in-memory store, the chunk without a metric name is refused, its payload
  is in the blob store under its key and the index is empty.
\<close>

theorem PutOne_missing_metric_name_witness:
  "fst (PutOne (memStore plainConfig) 10 20 chunkNoName emptyWorld) = Some ErrMetricNameLabelMissing
   \<and> blobs (snd (PutOne (memStore plainConfig) 10 20 chunkNoName emptyWorld))
       = [(memKey chunkNoName, chunkNoName)]
   \<and> idx (snd (PutOne (memStore plainConfig) 10 20 chunkNoName emptyWorld)) = []"
proof -
  have n: "MetricName \<notin> fst ` set (Metric chunkNoName)"
    by (simp add: chunkNoName_def chunkA_def MetricName_def)
  have p: "PutChunks (storage (fetcher (memStore plainConfig))) [chunkNoName] (blobs emptyWorld)
      = (None, [(memKey chunkNoName, chunkNoName)])"
    by (simp add: memStore_def plainConfig_def memFetcher_def memClient_def emptyWorld_def)
  from PutOne_missing_metric_name [OF n p, of 10 20] show ?thesis
    by (simp add: emptyWorld_def)
qed

text \<open>
  Claim C4. \<^verbatim>\<open>PutOne\<close> writes the payload with \<^verbatim>\<open>PutChunks\<close>, then writes back to the
  cache, then computes the deduplicated index entries, then calls \<^verbatim>\<open>BatchWrite\<close>. With
  \<open>(pe, b')\<close> what \<^verbatim>\<open>PutChunks\<close> returns and \<open>(ce, k')\<close> what the write-back returns:
  an error of \<^verbatim>\<open>PutChunks\<close> is returned and nothing else has run (index, cache and log
  are as before); after a successful \<^verbatim>\<open>PutChunks\<close> the cache is the one the write-back
  left and its error, if any, is a line of the log and nothing more; an error of the
  computation of the entries is returned with the index untouched; otherwise the result
  of \<^verbatim>\<open>BatchWrite\<close> on the computed batch is the result of the call, its error included.
  The error returned never depends on the write-back.
\<close>

theorem PutOne_steps:
  assumes "PutChunks (storage (fetcher c)) [chunk] (blobs w) = (pe, b')"
    and "writeBackCache (fetcher c) [chunk] (cache w) = (ce, k')"
  shows "(pe = Some e \<longrightarrow>
            PutOne c from through chunk w = (Some e, w\<lparr>blobs := b'\<rparr>))
       \<and> (pe = None \<longrightarrow>
            blobs (snd (PutOne c from through chunk w)) = b'
            \<and> cache (snd (PutOne c from through chunk w)) = k'
            \<and> logged (snd (PutOne c from through chunk w))
                = logged w @ (case ce of Some x \<Rightarrow> [cacheWarning] | None \<Rightarrow> []))
       \<and> (pe = None \<and> calculateIndexEntries c (UserID chunk) from through chunk = Inl e' \<longrightarrow>
            fst (PutOne c from through chunk w) = Some e'
            \<and> idx (snd (PutOne c from through chunk w)) = idx w)
       \<and> (pe = None \<and> calculateIndexEntries c (UserID chunk) from through chunk = Inr batch
            \<and> BatchWrite (index c) batch (idx w) = (r, i') \<longrightarrow>
            fst (PutOne c from through chunk w) = r
            \<and> idx (snd (PutOne c from through chunk w)) = i')
       \<and> fst (PutOne (c\<lparr>fetcher := (fetcher c)\<lparr>writeBackCache := wb\<rparr>\<rparr>) from through chunk w)
           = fst (PutOne c from through chunk w)"
proof (intro conjI impI)
  assume "pe = Some e"
  with assms show "PutOne c from through chunk w = (Some e, w\<lparr>blobs := b'\<rparr>)"
    by (simp add: PutOne_def)
next
  assume "pe = None"
  with assms show "blobs (snd (PutOne c from through chunk w)) = b'"
    and "cache (snd (PutOne c from through chunk w)) = k'"
    and "logged (snd (PutOne c from through chunk w))
          = logged w @ (case ce of Some x \<Rightarrow> [cacheWarning] | None \<Rightarrow> [])"
    by (simp_all add: PutOne_def Let_def split: sum.splits prod.splits)
next
  assume "pe = None \<and> calculateIndexEntries c (UserID chunk) from through chunk = Inl e'"
  with assms show "fst (PutOne c from through chunk w) = Some e'"
    and "idx (snd (PutOne c from through chunk w)) = idx w"
    by (simp_all add: PutOne_def Let_def)
next
  assume "pe = None \<and> calculateIndexEntries c (UserID chunk) from through chunk = Inr batch
            \<and> BatchWrite (index c) batch (idx w) = (r, i')"
  with assms show "fst (PutOne c from through chunk w) = r"
    and "idx (snd (PutOne c from through chunk w)) = i'"
    by (simp_all add: PutOne_def Let_def)
next
  have calc: "calculateIndexEntries (c\<lparr>fetcher := (fetcher c)\<lparr>writeBackCache := wb\<rparr>\<rparr>) (UserID chunk)
        from through chunk = calculateIndexEntries c (UserID chunk) from through chunk"
    by (simp add: calculateIndexEntries_def Let_def)
  show "fst (PutOne (c\<lparr>fetcher := (fetcher c)\<lparr>writeBackCache := wb\<rparr>\<rparr>) from through chunk w)
           = fst (PutOne c from through chunk w)"
    unfolding PutOne_def calc
    by (simp add: Let_def split: prod.splits option.splits sum.splits)
qed

text \<open>
  On the empty in-memory store: a failing blob store stops the call with its error and
  leaves everything as it was; a failing cache leaves a line in the log and the call
  succeeds with the index written; a failing index fails the call; a chunk without a
  metric name fails the call with the index untouched.
\<close>

theorem PutOne_steps_witness:
  "PutOne (memStore putFailing) 10 20 chunkA emptyWorld = (Some (Errorf ''put failed''), emptyWorld)
   \<and> fst (PutOne (memStore cacheFailing) 10 20 chunkA emptyWorld) = None
   \<and> logged (snd (PutOne (memStore cacheFailing) 10 20 chunkA emptyWorld)) = [cacheWarning]
   \<and> idx (snd (PutOne (memStore cacheFailing) 10 20 chunkA emptyWorld))
       = [memRow ''7:http_requests'' (memKey chunkA) [], memRow ''7:http_requests:job'' (memKey chunkA) ''api'']
   \<and> fst (PutOne (memStore indexFailing) 10 20 chunkA emptyWorld) = Some (Errorf ''index down'')
   \<and> fst (PutOne (memStore plainConfig) 10 20 chunkNoName emptyWorld) = Some ErrMetricNameLabelMissing
   \<and> idx (snd (PutOne (memStore plainConfig) 10 20 chunkNoName emptyWorld)) = []"
proof -
  let ?batch = "[Add ''t'' ''7:http_requests'' (memKey chunkA) [],
                 Add ''t'' ''7:http_requests:job'' (memKey chunkA) ''api'']"
  have p1: "PutChunks (storage (fetcher (memStore putFailing))) [chunkA] (blobs emptyWorld)
      = (Some (Errorf ''put failed''), [])"
    and w1: "writeBackCache (fetcher (memStore putFailing)) [chunkA] (cache emptyWorld)
      = (None, [(memKey chunkA, chunkA)])"
    by (simp_all add: mem_defs)
  have p2: "PutChunks (storage (fetcher (memStore cacheFailing))) [chunkA] (blobs emptyWorld)
      = (None, [(memKey chunkA, chunkA)])"
    and w2: "writeBackCache (fetcher (memStore cacheFailing)) [chunkA] (cache emptyWorld)
      = (Some (Errorf ''cache down''), [])"
    and c2: "calculateIndexEntries (memStore cacheFailing) (UserID chunkA) 10 20 chunkA = Inr ?batch"
    and b2: "BatchWrite (index (memStore cacheFailing)) ?batch (idx emptyWorld)
      = (None, [memRow ''7:http_requests'' (memKey chunkA) [],
                memRow ''7:http_requests:job'' (memKey chunkA) ''api''])"
    by (simp_all add: mem_defs store_defs)
  have p3: "PutChunks (storage (fetcher (memStore indexFailing))) [chunkA] (blobs emptyWorld)
      = (None, [(memKey chunkA, chunkA)])"
    and w3: "writeBackCache (fetcher (memStore indexFailing)) [chunkA] (cache emptyWorld)
      = (None, [(memKey chunkA, chunkA)])"
    and c3: "calculateIndexEntries (memStore indexFailing) (UserID chunkA) 10 20 chunkA = Inr ?batch"
    and b3: "BatchWrite (index (memStore indexFailing)) ?batch (idx emptyWorld)
      = (Some (Errorf ''index down''), [])"
    by (simp_all add: mem_defs store_defs)
  have p4: "PutChunks (storage (fetcher (memStore plainConfig))) [chunkNoName] (blobs emptyWorld)
      = (None, [(memKey chunkNoName, chunkNoName)])"
    and w4: "writeBackCache (fetcher (memStore plainConfig)) [chunkNoName] (cache emptyWorld)
      = (None, [(memKey chunkNoName, chunkNoName)])"
    and c4: "calculateIndexEntries (memStore plainConfig) (UserID chunkNoName) 10 20 chunkNoName
      = Inl ErrMetricNameLabelMissing"
    by (simp_all add: mem_defs store_defs)
  have e: "emptyWorld\<lparr>blobs := []\<rparr> = emptyWorld" "idx emptyWorld = []" "logged emptyWorld = []"
    by (simp_all add: emptyWorld_def)
  from PutOne_steps [OF p1 w1, where e = "Errorf ''put failed''" and ?from = 10 and through = 20]
  have a: "PutOne (memStore putFailing) 10 20 chunkA emptyWorld = (Some (Errorf ''put failed''), emptyWorld)"
    by (simp add: e)
  from PutOne_steps [OF p2 w2, where ?from = 10 and through = 20 and batch = ?batch and r = None
      and i' = "[memRow ''7:http_requests'' (memKey chunkA) [],
                 memRow ''7:http_requests:job'' (memKey chunkA) ''api'']"] c2 b2
  have b: "fst (PutOne (memStore cacheFailing) 10 20 chunkA emptyWorld) = None
      \<and> logged (snd (PutOne (memStore cacheFailing) 10 20 chunkA emptyWorld)) = [cacheWarning]
      \<and> idx (snd (PutOne (memStore cacheFailing) 10 20 chunkA emptyWorld))
          = [memRow ''7:http_requests'' (memKey chunkA) [],
             memRow ''7:http_requests:job'' (memKey chunkA) ''api'']"
    by (simp add: e)
  from PutOne_steps [OF p3 w3, where ?from = 10 and through = 20 and batch = ?batch
      and r = "Some (Errorf ''index down'')" and i' = "[]"] c3 b3
  have c: "fst (PutOne (memStore indexFailing) 10 20 chunkA emptyWorld) = Some (Errorf ''index down'')"
    by simp
  from PutOne_steps [OF p4 w4, where ?from = 10 and through = 20 and e' = ErrMetricNameLabelMissing] c4
  have d: "fst (PutOne (memStore plainConfig) 10 20 chunkNoName emptyWorld) = Some ErrMetricNameLabelMissing
      \<and> idx (snd (PutOne (memStore plainConfig) 10 20 chunkNoName emptyWorld)) = []"
    by (simp add: e)
  from a b c d show ?thesis by blast
qed

section \<open>Routing of the block-store RPCs\<close>

text \<open>
  Claim C8, as stated: an RPC whose metadata lacks the \<^verbatim>\<open>user\<close> field fails with an error
  of the class \<^verbatim>\<open>InvalidArgument\<close>. The error is the plain error \<^verbatim>\<open>no userID\<close> made by
  \<^verbatim>\<open>fmt.Errorf\<close>, which carries no status.
\<close>

theorem rpc_missing_user_counterexample:
  "MD_Get [] ''user'' = []
   \<and> Info countingStore oneTenant (Some []) ''req'' = ((None, Some (Errorf ''no userID'')), oneTenant)
   \<and> \<not> InvalidArgumentClass (Errorf ''no userID'')"
  by (simp add: Info_def MD_Get_def InvalidArgumentClass_def)

text \<open>
  Claim C8, amended. For each of \<^verbatim>\<open>Info\<close>, \<^verbatim>\<open>Series\<close>, \<^verbatim>\<open>LabelNames\<close> and
  \<^verbatim>\<open>LabelValues\<close>: if the incoming context has no metadata, or its metadata has no
  \<^verbatim>\<open>user\<close> value, the call fails with a plain error that carries no status
  (\<^verbatim>\<open>no metadata\<close>, \<^verbatim>\<open>no userID\<close>) and touches no store; if the first \<^verbatim>\<open>user\<close> value
  names a tenant without a store, the call returns an empty response and no error, and
  creates no store; if that tenant has a store, the result is the one of that store's
  method on the request, and no other tenant's store is touched.
\<close>

theorem rpc_routing:
  "(ctx = None \<longrightarrow>
      Info bs u ctx req = ((None, Some (Errorf ''no metadata'')), u)
      \<and> Series bs u ctx req = (([], Some (Errorf ''no metadata'')), u)
      \<and> LabelNames bs u ctx req = ((None, Some (Errorf ''no metadata'')), u)
      \<and> LabelValues bs u ctx req = ((None, Some (Errorf ''no metadata'')), u)
      \<and> statusCode (Errorf ''no metadata'') = None)
   \<and> (ctx = Some md \<and> MD_Get md ''user'' = [] \<longrightarrow>
      Info bs u ctx req = ((None, Some (Errorf ''no userID'')), u)
      \<and> Series bs u ctx req = (([], Some (Errorf ''no userID'')), u)
      \<and> LabelNames bs u ctx req = ((None, Some (Errorf ''no userID'')), u)
      \<and> LabelValues bs u ctx req = ((None, Some (Errorf ''no userID'')), u)
      \<and> statusCode (Errorf ''no userID'') = None)
   \<and> (ctx = Some md \<and> MD_Get md ''user'' = v0 # vs \<and> stores u v0 = None \<longrightarrow>
      Info bs u ctx req = ((None, None), u)
      \<and> Series bs u ctx req = (([], None), u)
      \<and> LabelNames bs u ctx req = ((None, None), u)
      \<and> LabelValues bs u ctx req = ((None, None), u))
   \<and> (ctx = Some md \<and> MD_Get md ''user'' = v0 # vs \<and> stores u v0 = Some s \<longrightarrow>
      Info bs u ctx req
        = (fst (BucketStore_Info bs s req), u\<lparr>stores := (stores u)(v0 \<mapsto> snd (BucketStore_Info bs s req))\<rparr>)
      \<and> Series bs u ctx req
        = (fst (BucketStore_Series bs s req), u\<lparr>stores := (stores u)(v0 \<mapsto> snd (BucketStore_Series bs s req))\<rparr>)
      \<and> LabelNames bs u ctx req
        = (fst (BucketStore_LabelNames bs s req),
           u\<lparr>stores := (stores u)(v0 \<mapsto> snd (BucketStore_LabelNames bs s req))\<rparr>)
      \<and> LabelValues bs u ctx req
        = (fst (BucketStore_LabelValues bs s req),
           u\<lparr>stores := (stores u)(v0 \<mapsto> snd (BucketStore_LabelValues bs s req))\<rparr>))"
  by (simp add: Info_def Series_def LabelNames_def LabelValues_def getStore_def split: prod.splits)

text \<open>
  On the server with the one tenant \<^verbatim>\<open>tenant-a\<close>: a call without metadata and a call
  without the \<^verbatim>\<open>user\<close> field fail, a call for \<^verbatim>\<open>tenant-b\<close> returns nothing and leaves
  the server as it was, and a call for \<^verbatim>\<open>tenant-a\<close> is served by its store.
\<close>

theorem rpc_routing_witness:
  "Info countingStore oneTenant None ''req'' = ((None, Some (Errorf ''no metadata'')), oneTenant)
   \<and> Series countingStore oneTenant (Some [(''trace'', [''1''])]) ''req''
       = (([], Some (Errorf ''no userID'')), oneTenant)
   \<and> LabelNames countingStore oneTenant (Some [(''user'', [''tenant-b''])]) ''req''
       = ((None, None), oneTenant)
   \<and> LabelValues countingStore oneTenant (Some [(''user'', [''tenant-a''])]) ''req''
       = ((Some ''req'', None), oneTenant\<lparr>stores := (stores oneTenant)(''tenant-a'' \<mapsto> Suc 0)\<rparr>)"
proof -
  have g1: "MD_Get [(''trace'', [''1''])] ''user'' = []"
    and g2: "MD_Get [(''user'', [''tenant-b''])] ''user'' = [''tenant-b'']"
    and g3: "MD_Get [(''user'', [''tenant-a''])] ''user'' = [''tenant-a'']"
    and s2: "stores oneTenant ''tenant-b'' = None"
    and s3: "stores oneTenant ''tenant-a'' = Some 0"
    by (simp_all add: MD_Get_def oneTenant_def)
  from rpc_routing [where ctx = None and bs = countingStore and u = oneTenant and req = "''req''"]
  have a: "Info countingStore oneTenant None ''req'' = ((None, Some (Errorf ''no metadata'')), oneTenant)"
    by blast
  from rpc_routing [where ctx = "Some [(''trace'', [''1''])]" and md = "[(''trace'', [''1''])]"
      and bs = countingStore and u = oneTenant and req = "''req''"] g1
  have b: "Series countingStore oneTenant (Some [(''trace'', [''1''])]) ''req''
       = (([], Some (Errorf ''no userID'')), oneTenant)"
    by blast
  from rpc_routing [where ctx = "Some [(''user'', [''tenant-b''])]" and md = "[(''user'', [''tenant-b''])]"
      and bs = countingStore and u = oneTenant and req = "''req''" and ?v0.0 = "''tenant-b''" and vs = "[]"]
    g2 s2
  have c: "LabelNames countingStore oneTenant (Some [(''user'', [''tenant-b''])]) ''req''
       = ((None, None), oneTenant)"
    by blast
  from rpc_routing [where ctx = "Some [(''user'', [''tenant-a''])]" and md = "[(''user'', [''tenant-a''])]"
      and bs = countingStore and u = oneTenant and req = "''req''" and ?v0.0 = "''tenant-a''" and vs = "[]"
      and s = 0] g3 s3
  have d: "LabelValues countingStore oneTenant (Some [(''user'', [''tenant-a''])]) ''req''
       = ((Some ''req'', None), oneTenant\<lparr>stores := (stores oneTenant)(''tenant-a'' \<mapsto> Suc 0)\<rparr>)"
    by (simp add: countingStore_def)
  from a b c d show ?thesis by blast
qed

section \<open>The counts of the scanner\<close>

lemma map_of_add_count: "map_of (add_count k v s) = (map_of s)(k \<mapsto> count_of s k + v)"
  by (simp add: add_count_def update_conv')

lemma distinct_add_count: "distinct (map fst s) \<Longrightarrow> distinct (map fst (add_count k v s))"
  by (simp add: add_count_def distinct_update)

lemma rowsOf_append: "rowsOf p k (rows @ rows') = rowsOf p k rows + rowsOf p k rows'"
  by (simp add: rowsOf_def)

lemma rowsOf_nonneg: "0 \<le> rowsOf p k rows"
  by (simp add: rowsOf_def)

lemma tallies_count_of:
  "tallies p rows s \<Longrightarrow> count_of s k = (if 0 < k then rowsOf p k rows else 0)"
  using rowsOf_nonneg [of p k rows]
  by (auto simp: tallies_def count_of_def)

lemma handleRow_frame:
  "tableName (fst (handleRow p row (h, s))) = tableName h"
  "orgs (fst (handleRow p row (h, s))) = orgs h"
  "reindexTablePrefix (fst (handleRow p row (h, s))) = reindexTablePrefix h"
  "pageCounter (snd (handleRow p row (h, s))) = pageCounter s"
  by (auto simp: handleRow_def Let_def split: prod.splits sum.splits option.splits)

lemma handleRow_counts:
  "counts (fst (handleRow p row (h, s)))
     = (if OrgFromHash p (fst row) \<le> 0 then counts h else add_count (OrgFromHash p (fst row)) 1 (counts h))"
  by (auto simp: handleRow_def Let_def split: prod.splits sum.splits option.splits)

lemma handleRow_tallies:
  assumes "tallies p rows (counts h)"
  shows "tallies p (rows @ [row]) (counts (fst (handleRow p row (h, s))))"
proof (cases "OrgFromHash p (fst row) \<le> 0")
  case True
  have "rowsOf p k (rows @ [row]) = rowsOf p k rows" if "0 < k" for k
    using that True by (auto simp: rowsOf_def)
  with assms True show ?thesis
    by (auto simp: handleRow_counts tallies_def)
next
  case False
  let ?o = "OrgFromHash p (fst row)"
  have r: "rowsOf p k (rows @ [row]) = rowsOf p k rows + (if k = ?o then 1 else 0)" for k
    by (auto simp: rowsOf_def)
  have c: "count_of (counts h) ?o = rowsOf p ?o rows"
    using tallies_count_of [OF assms, of ?o] False by simp
  show ?thesis
    unfolding tallies_def handleRow_counts
    using False assms rowsOf_nonneg [of p ?o rows]
    by (auto simp: map_of_add_count distinct_add_count r c tallies_def)
qed

lemma count_of_add_count:
  "count_of (add_count k v s) k' = count_of s k' + (if k' = k then v else 0)"
  by (simp add: count_of_def map_of_add_count)

lemma fold_handleRow_frame:
  "tableName (fst (fold (handleRow p) page hs)) = tableName (fst hs)
   \<and> pageCounter (snd (fold (handleRow p) page hs)) = pageCounter (snd hs)"
proof (induction page arbitrary: hs)
  case Nil
  then show ?case by simp
next
  case (Cons row page)
  obtain h s where hs: "hs = (h, s)" by (cases hs)
  show ?case using Cons [of "handleRow p row (h, s)"]
    by (simp add: hs handleRow_frame)
qed

lemma fold_handleRow_tallies:
  "tallies p rows (counts (fst hs)) \<Longrightarrow>
   tallies p (rows @ page) (counts (fst (fold (handleRow p) page hs)))"
proof (induction page arbitrary: rows hs)
  case Nil
  then show ?case by simp
next
  case (Cons row page)
  obtain h s where hs: "hs = (h, s)" by (cases hs)
  from Cons.prems have "tallies p (rows @ [row]) (counts (fst (handleRow p row (h, s))))"
    by (simp add: hs handleRow_tallies)
  from Cons.IH [OF this] show ?case by (simp add: hs)
qed

lemma fold_handleRow_count_of:
  "count_of (counts (fst (fold (handleRow p) page hs))) k
     = count_of (counts (fst hs)) k + (if 0 < k then rowsOf p k page else 0)"
proof (induction page arbitrary: hs)
  case Nil
  then show ?case by (simp add: rowsOf_def)
next
  case (Cons row page)
  obtain h s where hs: "hs = (h, s)" by (cases hs)
  have r: "rowsOf p k (row # page) = (if OrgFromHash p (fst row) = k then 1 else 0) + rowsOf p k page"
    by (simp add: rowsOf_def)
  show ?case using Cons [of "handleRow p row (h, s)"]
    by (auto simp: hs handleRow_counts count_of_add_count r)
qed

lemma handlePage_pageCounter:
  "pageCounter (snd (handlePage p h page s))
     = (pageCounter s)(tableName h := pageCounter s (tableName h) + 1)"
  by (simp add: handlePage_def fold_handleRow_frame)

lemma handlePage_tableName: "tableName (fst (handlePage p h page s)) = tableName h"
  by (simp add: handlePage_def fold_handleRow_frame)

lemma handlePage_tallies:
  "tallies p rows (counts h) \<Longrightarrow> tallies p (rows @ page) (counts (fst (handlePage p h page s)))"
  by (simp add: handlePage_def fold_handleRow_tallies)

lemma handlePage_count_of:
  "count_of (counts (fst (handlePage p h page s))) k
     = count_of (counts h) k + (if 0 < k then rowsOf p k page else 0)"
  by (simp add: handlePage_def fold_handleRow_count_of)

lemma handlePages_props:
  "tallies p rows (counts h) \<Longrightarrow>
   tallies p (rows @ concat pgs) (counts (fst (handlePages p h pgs s)))
   \<and> tableName (fst (handlePages p h pgs s)) = tableName h
   \<and> pageCounter (snd (handlePages p h pgs s))
       = (pageCounter s)(tableName h := pageCounter s (tableName h) + length pgs)"
proof (induction pgs arbitrary: rows h s)
  case Nil
  then show ?case by (simp add: handlePages_def)
next
  case (Cons page pgs)
  obtain h1 s1 where one: "handlePage p h page s = (h1, s1)" by (cases "handlePage p h page s")
  have t1: "tallies p (rows @ page) (counts h1)"
    using handlePage_tallies [OF Cons.prems, of page s] one by simp
  have n1: "tableName h1 = tableName h"
    using handlePage_tableName [of p h page s] one by simp
  have c1: "pageCounter s1 = (pageCounter s)(tableName h := pageCounter s (tableName h) + 1)"
    using handlePage_pageCounter [of p h page s] one by simp
  have step: "handlePages p h (page # pgs) s = handlePages p h1 pgs s1"
    by (simp add: handlePages_def one)
  from Cons.IH [OF t1, of s1] show ?case
    by (auto simp: step n1 c1)
qed

lemma fold_add_count:
  "distinct (map fst b) \<Longrightarrow> distinct (map fst s) \<Longrightarrow>
   distinct (map fst (fold (\<lambda>(k, v). add_count k v) b s))
   \<and> map_of (fold (\<lambda>(k, v). add_count k v) b s) k
       = (case map_of b k of None \<Rightarrow> map_of s k | Some v \<Rightarrow> Some (count_of s k + v))"
proof (induction b arbitrary: s)
  case Nil
  then show ?case by simp
next
  case (Cons kv b)
  obtain k' v' where kv: "kv = (k', v')" by (cases kv)
  from Cons.prems have d: "distinct (map fst b)" and nk: "k' \<notin> fst ` set b" by (auto simp: kv)
  have ds: "distinct (map fst (add_count k' v' s))"
    using Cons.prems(2) by (rule distinct_add_count)
  from nk have none: "map_of b k' = None" by (simp add: map_of_eq_None_iff)
  from Cons.IH [OF d ds] none show ?case
    by (auto simp: kv map_of_add_count count_of_add_count split: option.splits)
qed

lemma accumulate_tallies:
  assumes "tallies p r1 s" and "tallies p r2 b"
  shows "tallies p (r1 @ r2) (accumulate s b)"
proof -
  from assms have ds: "distinct (map fst s)" and db: "distinct (map fst b)"
    by (simp_all add: tallies_def)
  have m: "map_of (accumulate s b) k
      = (if 0 < k \<and> 0 < rowsOf p k (r1 @ r2) then Some (rowsOf p k (r1 @ r2)) else None)" for k
  proof -
    have b: "map_of b k = (if 0 < k \<and> 0 < rowsOf p k r2 then Some (rowsOf p k r2) else None)"
      using assms(2) by (simp add: tallies_def)
    have s: "map_of s k = (if 0 < k \<and> 0 < rowsOf p k r1 then Some (rowsOf p k r1) else None)"
      using assms(1) by (simp add: tallies_def)
    have c: "count_of s k = (if 0 < k then rowsOf p k r1 else 0)"
      by (rule tallies_count_of [OF assms(1)])
    from fold_add_count [OF db ds, of k]
    have "map_of (accumulate s b) k
        = (case map_of b k of None \<Rightarrow> map_of s k | Some v \<Rightarrow> Some (count_of s k + v))"
      by (simp add: accumulate_def)
    then show ?thesis
      using rowsOf_nonneg [of p k r1] rowsOf_nonneg [of p k r2]
      by (auto simp: b s c rowsOf_append)
  qed
  from fold_add_count [OF db ds] have "distinct (map fst (accumulate s b))"
    by (simp add: accumulate_def)
  with m show ?thesis by (simp add: tallies_def)
qed

lemma tallies_empty: "tallies p [] newSummary"
  by (simp add: tallies_def newSummary_def rowsOf_def)

lemma Scan_props:
  "length hs = length segs \<Longrightarrow> \<forall>h \<in> set hs. counts h = newSummary \<and> tableName h = table \<Longrightarrow>
   list_all2 (\<lambda>h' pgs. tallies p (concat pgs) (counts h')) (fst (Scan p hs segs s)) segs
   \<and> pageCounter (snd (Scan p hs segs s))
       = (pageCounter s)(table := pageCounter s table + length (concat segs))"
proof (induction p hs segs s rule: Scan.induct)
  case (1 p h hs pgs segs s)
  obtain h' s' where one: "handlePages p h pgs s = (h', s')" by (cases "handlePages p h pgs s")
  from "1.prems" have t0: "tallies p [] (counts h)" and tn: "tableName h = table"
    by (simp_all add: tallies_empty)
  from handlePages_props [OF t0, of pgs s] one tn
  have t1: "tallies p (concat pgs) (counts h')"
    and c1: "pageCounter s' = (pageCounter s)(table := pageCounter s table + length pgs)"
    by simp_all
  from "1.prems" have "length hs = length segs"
    and "\<forall>h \<in> set hs. counts h = newSummary \<and> tableName h = table" by simp_all
  from "1.IH" [OF one [symmetric] this]
  have ih: "list_all2 (\<lambda>h' pgs. tallies p (concat pgs) (counts h')) (fst (Scan p hs segs s')) segs"
    and ic: "pageCounter (snd (Scan p hs segs s'))
       = (pageCounter s')(table := pageCounter s' table + length (concat segs))"
    by blast+
  show ?case
    using t1 ih ic c1 by (auto simp: one split: prod.splits)
qed simp_all

lemma totals_tallies:
  "tallies p r0 t \<Longrightarrow> list_all2 (\<lambda>h' pgs. tallies p (concat pgs) (counts h')) hs segs \<Longrightarrow>
   tallies p (r0 @ concat (concat segs)) (fold (\<lambda>h totals. accumulate totals (counts h)) hs t)"
proof (induction hs arbitrary: r0 t segs)
  case Nil
  then show ?case by simp
next
  case (Cons h hs)
  from Cons.prems(2) obtain pgs segs' where segs: "segs = pgs # segs'"
    and th: "tallies p (concat pgs) (counts h)"
    and rest: "list_all2 (\<lambda>h' pgs. tallies p (concat pgs) (counts h')) hs segs'"
    by (auto simp: list_all2_Cons1)
  from accumulate_tallies [OF Cons.prems(1) th]
  have "tallies p (r0 @ concat pgs) (accumulate t (counts h))" .
  from Cons.IH [OF this rest] show ?case by (simp add: segs)
qed

lemma tallies_set:
  assumes "tallies p rows s"
  shows "set s = {(k, n). 0 < k \<and> n = rowsOf p k rows \<and> 0 < n}"
proof -
  from assms have d: "distinct (map fst s)" by (simp add: tallies_def)
  have "(k, n) \<in> set s \<longleftrightarrow> 0 < k \<and> n = rowsOf p k rows \<and> 0 < n" for k n
  proof -
    have "(k, n) \<in> set s \<longleftrightarrow> map_of s k = Some n"
      using d by simp
    also have "\<dots> \<longleftrightarrow> 0 < k \<and> n = rowsOf p k rows \<and> 0 < n"
      using assms by (auto simp: tallies_def)
    finally show ?thesis .
  qed
  then show ?thesis by auto
qed

lemma scanAndPrint_tallies:
  "tallies p (concat (concat segs)) (fst (scanAndPrint p table prefix os segs s))
   \<and> pageCounter (snd (scanAndPrint p table prefix os segs s))
       = (pageCounter s)(table := pageCounter s table + length (concat segs))"
proof -
  let ?hs = "replicate (length segs) (newHandler table prefix os)"
  have len: "length ?hs = length segs" by simp
  have fresh: "\<forall>h \<in> set ?hs. counts h = newSummary \<and> tableName h = table"
    by (simp add: newHandler_def)
  from Scan_props [OF len fresh, of p s]
  have l: "list_all2 (\<lambda>h' pgs. tallies p (concat pgs) (counts h')) (fst (Scan p ?hs segs s)) segs"
    and c: "pageCounter (snd (Scan p ?hs segs s))
       = (pageCounter s)(table := pageCounter s table + length (concat segs))"
    by blast+
  from totals_tallies [OF tallies_empty l]
  have "tallies p (concat (concat segs)) (totalsOf (fst (Scan p ?hs segs s)))"
    by (simp add: totalsOf_def)
  with c show ?thesis
    by (cases "Scan p ?hs segs s") (simp add: scanAndPrint_def print_def Let_def)
qed

text \<open>
  Claim C9. For every page a segment handler processes, the counter of pages of the
  handler's table goes up by exactly one; a row whose tenant id, taken from the hash value
  by \<^verbatim>\<open>OrgFromHash\<close>, is zero or negative is skipped, and any other row adds one to the
  count of its tenant, so that after the page the count of a tenant \<open>k\<close> has grown by the
  number of rows of \<open>k\<close> in the page when \<open>k\<close> is positive and not at all otherwise. The
  merged summary that is printed holds one pair per tenant, and its pairs are exactly the
  tenants with a positive id that have a row in the table, each with the number of its
  rows; the counter of pages has grown by the number of pages of the table.
\<close>

theorem scanner_counts:
  "pageCounter (snd (handlePage p h page s))
     = (pageCounter s)(tableName h := pageCounter s (tableName h) + 1)
   \<and> counts (fst (handleRow p row (h, s)))
       = (if OrgFromHash p (fst row) \<le> 0 then counts h
          else add_count (OrgFromHash p (fst row)) 1 (counts h))
   \<and> count_of (add_count k 1 m) k' = count_of m k' + (if k' = k then 1 else 0)
   \<and> count_of (counts (fst (handlePage p h page s))) k
       = count_of (counts h) k + (if 0 < k then rowsOf p k page else 0)
   \<and> set (fst (scanAndPrint p table prefix os segs s0))
       = {(k, n). 0 < k \<and> n = rowsOf p k (concat (concat segs)) \<and> 0 < n}
   \<and> distinct (map fst (fst (scanAndPrint p table prefix os segs s0)))
   \<and> pageCounter (snd (scanAndPrint p table prefix os segs s0))
       = (pageCounter s0)(table := pageCounter s0 table + length (concat segs))"
proof -
  have t: "tallies p (concat (concat segs)) (fst (scanAndPrint p table prefix os segs s0))"
    and c: "pageCounter (snd (scanAndPrint p table prefix os segs s0))
       = (pageCounter s0)(table := pageCounter s0 table + length (concat segs))"
    using scanAndPrint_tallies [of p segs table prefix os s0] by blast+
  from t have d: "distinct (map fst (fst (scanAndPrint p table prefix os segs s0)))"
    by (simp add: tallies_def)
  show ?thesis
    using handlePage_pageCounter [of p h page s] handleRow_counts [of p row h s]
      count_of_add_count [of k 1 m k'] handlePage_count_of [of p h page s k]
      tallies_set [OF t] d c
    by blast
qed

text \<open>
  The table of scenario S6, scanned in two segments: the lines printed are \<open>3, 5\<close> and
  \<open>8, 2\<close>, and the counter of pages of the table stands at three.
\<close>

theorem scanner_counts_witness:
  "fst (scanAndPrint digitScan ''chunks2497'' [] {} tableS6 freshScanner) = [(3, 5), (8, 2)]
   \<and> pageCounter (snd (scanAndPrint digitScan ''chunks2497'' [] {} tableS6 freshScanner)) ''chunks2497'' = 3
   \<and> rowsOf digitScan 3 (concat (concat tableS6)) = 5
   \<and> rowsOf digitScan 8 (concat (concat tableS6)) = 2
   \<and> rowsOf digitScan (- 1) (concat (concat tableS6)) = 1"
proof -
  have lines: "fst (scanAndPrint digitScan ''chunks2497'' [] {} tableS6 freshScanner) = [(3, 5), (8, 2)]"
    by (simp add: scanAndPrint_def tableS6_def newHandler_def newSummary_def handlePages_def
        handlePage_def handleRow_def digitScan_def digitOrg_def add_count_def count_of_def
        totalsOf_def accumulate_def print_def Let_def)
  have pgs: "length (concat tableS6) = 3"
    by (simp add: tableS6_def)
  have rows: "rowsOf digitScan 3 (concat (concat tableS6)) = 5"
    "rowsOf digitScan 8 (concat (concat tableS6)) = 2"
    "rowsOf digitScan (- 1) (concat (concat tableS6)) = 1"
    by (simp_all add: rowsOf_def tableS6_def digitScan_def digitOrg_def)
  from scanner_counts [of digitScan _ _ _ _ _ _ _ "''chunks2497''" "[]" "{}" tableS6 freshScanner]
  have "pageCounter (snd (scanAndPrint digitScan ''chunks2497'' [] {} tableS6 freshScanner))
      = (pageCounter freshScanner)(''chunks2497'' := pageCounter freshScanner ''chunks2497''
           + length (concat tableS6))"
    by blast
  then have "pageCounter (snd (scanAndPrint digitScan ''chunks2497'' [] {} tableS6 freshScanner))
      ''chunks2497'' = 3"
    by (simp add: pgs freshScanner_def)
  with lines rows show ?thesis by blast
qed

section \<open>The candidates of a query\<close>




lemma parseEntriesLoop_parsed:
  "parseEntriesLoop p entries m = Inr result \<Longrightarrow> e \<in> set entries \<Longrightarrow>
   \<exists>key lv sha. parseChunkTimeRangeValue p (RangeValue e) (EntryValue e) = Inr (key, lv, sha)"
proof (induction entries arbitrary: result)
  case Nil
  then show ?case by simp
next
  case (Cons a entries)
  then show ?case
    by (auto split: sum.splits prod.splits if_splits option.splits)
qed



















lemma convertChunkIDsToChunks_parsed:
  "convertChunkIDsToChunks c userID ids = Inr found \<Longrightarrow>
   list_all2 (\<lambda>chunkID ch. ParseExternalKey (pkg c) userID chunkID = Inr ch) ids found"
  by (induction ids arbitrary: found) (auto split: sum.splits)

lemma convertChunkIDsToChunks_keys:
  assumes "convertChunkIDsToChunks c userID ids = Inr found"
    and "\<And>chunkID ch. ParseExternalKey (pkg c) userID chunkID = Inr ch \<Longrightarrow> ExternalKey (pkg c) ch = chunkID"
  shows "map (ExternalKey (pkg c)) found = ids"
proof -
  from convertChunkIDsToChunks_parsed [OF assms(1)]
  have "list_all2 (\<lambda>chunkID ch. ExternalKey (pkg c) ch = chunkID) ids found"
    by (rule list_all2_mono) (rule assms(2))
  then show ?thesis
    by (induction ids found rule: list_all2_induct) auto
qed


















section \<open>Partial deletion\<close>

lemma PutOne_ok_blobs:
  "PutOne c f t n w = (None, w1) \<Longrightarrow>
   PutChunks (storage (fetcher c)) [n] (blobs w) = (None, blobs w1)"
  by (auto simp: PutOne_def Let_def split: prod.splits option.splits sum.splits)

lemma encodedKeys_Cons:
  "encodedKeys p (n # ns)
     = (case Encode p n of Inl err \<Rightarrow> [] | Inr encoded \<Rightarrow> [ExternalKey p encoded]) @ encodedKeys p ns"
  by (simp add: encodedKeys_def)

lemma putNewChunks_holds:
  assumes "blobContract c holds"
  shows "putNewChunks (pkg c) (\<lambda>n. PutOne c (From n) (Through n) n) news w0 = (None, w1) \<Longrightarrow>
         holds (blobs w1) = holds (blobs w0) \<union> set (encodedKeys (pkg c) news)"
proof (induction news arbitrary: w0)
  case Nil
  then show ?case by (simp add: encodedKeys_def)
next
  case (Cons n news)
  from Cons.prems obtain enc wm where
    enc: "Encode (pkg c) n = Inr enc"
    and put: "PutOne c (From enc) (Through enc) enc w0 = (None, wm)"
    and rest: "putNewChunks (pkg c) (\<lambda>n. PutOne c (From n) (Through n) n) news wm = (None, w1)"
    by (auto split: sum.splits prod.splits option.splits)
  from PutOne_ok_blobs [OF put] assms
  have "holds (blobs wm) = holds (blobs w0) \<union> {ExternalKey (pkg c) enc}"
    by (auto simp: blobContract_def)
  with Cons.IH [OF rest] show ?case
    by (auto simp: encodedKeys_Cons enc)
qed

lemma fold_applyTriple_deletes:
  "fold applyTriple (map (\<lambda>e. Delete (TableName e) (HashValue e) (RangeValue e)) entries) rows
     = rows - entry_triple ` set entries"
  by (induction entries arbitrary: rows) (auto simp: entry_triple_def)

lemma sliceBefore_kept:
  "From ch < a \<Longrightarrow> Slice p ch (From ch) (a - 1) = (n1, e1) \<Longrightarrow>
   e1 = None \<or> e1 = Some ErrSliceNoDataInRange \<Longrightarrow> sliceBefore p ch (a, b) = Inr (kept n1)"
  by (auto simp: sliceBefore_def kept_def)

lemma sliceAfter_kept:
  "b < Through ch \<Longrightarrow> Slice p ch (b + 1) (Through ch) = (n2, e2) \<Longrightarrow>
   e2 = None \<or> e2 = Some ErrSliceNoDataInRange \<Longrightarrow> sliceAfter p ch (a, b) = Inr (kept n2)"
  by (auto simp: sliceAfter_def kept_def)

lemma reboundChunk_sliced:
  assumes "ParseExternalKey (pkg c) userID chunkID = Inr parsed"
    and "From parsed < a" "a \<le> b" "b < Through parsed"
    and "FetchChunks (fetcher c) [parsed] [chunkID] (blobs w) (cache w) = (Inr [ch], k1)"
    and "From ch = From parsed" "Through ch = Through parsed"
    and "Slice (pkg c) ch (From ch) (a - 1) = (n1, e1)" "e1 = None \<or> e1 = Some ErrSliceNoDataInRange"
    and "Slice (pkg c) ch (b + 1) (Through ch) = (n2, e2)" "e2 = None \<or> e2 = Some ErrSliceNoDataInRange"
  shows "reboundChunk c userID chunkID (a, b) putChunkFunc w
           = putNewChunks (pkg c) putChunkFunc (kept n1 @ kept n2) (w\<lparr>cache := k1\<rparr>)"
proof -
  have o: "intervalsOverlap (From parsed, Through parsed) (a, b)"
    using assms(2-4) by (simp add: intervalsOverlap_def)
  have sb: "sliceBefore (pkg c) ch (a, b) = Inr (kept n1)"
    using assms(2,6,8,9) by (intro sliceBefore_kept) simp_all
  have sa: "sliceAfter (pkg c) ch (a, b) = Inr (kept n2)"
    using assms(4,7,10,11) by (intro sliceAfter_kept) simp_all
  show ?thesis
    by (simp add: reboundChunk_def assms(1,5) o sb sa)
qed

lemma DeleteChunk_no_overlap:
  assumes "Labels_Get metric MetricName \<noteq> []"
    and "GetWriteEntries (schema c) from through userID (Labels_Get metric MetricName) metric chunkID
           = Inr entries"
    and "ParseExternalKey (pkg c) userID chunkID = Inr parsed"
    and "\<not> intervalsOverlap (From parsed, Through parsed) (a, b)"
  shows "DeleteChunk c from through userID chunkID metric (Some (a, b)) w
      = (Some (Wrapf ''chunkID=%s'' ErrParialDeleteChunkNoOverlap), w)"
proof -
  have r: "reboundChunk c userID chunkID (a, b) (\<lambda>n. PutOne c (From n) (Through n) n) w
      = (Some ErrParialDeleteChunkNoOverlap, w)"
    using assms(3,4) by (simp add: reboundChunk_def)
  have d: "deleteChunk c userID chunkID metric entries (Some (a, b))
      (\<lambda>n. PutOne c (From n) (Through n) n) w
      = (Some (Wrapf ''chunkID=%s'' ErrParialDeleteChunkNoOverlap), w)"
    using assms(1) by (simp add: deleteChunk_def r)
  show ?thesis
    using assms(1,2) by (simp add: DeleteChunk_def d)
qed

lemma DeleteChunk_rebound:
  assumes "Labels_Get metric MetricName \<noteq> []"
    and "GetWriteEntries (schema c) from through userID (Labels_Get metric MetricName) metric chunkID
           = Inr entries"
    and "reboundChunk c userID chunkID (a, b) (\<lambda>n. PutOne c (From n) (Through n) n) w = (pe, w1)"
  shows "DeleteChunk c from through userID chunkID metric (Some (a, b)) w
      = (case pe of
           Some err \<Rightarrow> (Some (Wrapf ''chunkID=%s'' err), w1)
         | None \<Rightarrow>
             (case BatchWrite (index c)
                     (map (\<lambda>e. Delete (TableName e) (HashValue e) (RangeValue e)) entries) (idx w1) of
                (Some err, i') \<Rightarrow>
                  (Some (Wrapf ''when deleting index entries for chunkID=%s'' err), w1\<lparr>idx := i'\<rparr>)
              | (None, i') \<Rightarrow>
                  (case Client_DeleteChunk (chunks c) chunkID (blobs w1) of
                     (Some err, b') \<Rightarrow>
                       if err = ErrStorageObjectNotFound then (None, w1\<lparr>idx := i', blobs := b'\<rparr>)
                       else (Some (Wrapf ''when deleting chunk from storage with chunkID=%s'' err),
                             w1\<lparr>idx := i', blobs := b'\<rparr>)
                   | (None, b') \<Rightarrow> (None, w1\<lparr>idx := i', blobs := b'\<rparr>))))"
proof -
  have "DeleteChunk c from through userID chunkID metric (Some (a, b)) w
      = deleteChunk c userID chunkID metric entries (Some (a, b)) (\<lambda>n. PutOne c (From n) (Through n) n) w"
    using assms(1,2) by (simp add: DeleteChunk_def)
  also have "\<dots> = (case pe of
           Some err \<Rightarrow> (Some (Wrapf ''chunkID=%s'' err), w1)
         | None \<Rightarrow>
             (case BatchWrite (index c)
                     (map (\<lambda>e. Delete (TableName e) (HashValue e) (RangeValue e)) entries) (idx w1) of
                (Some err, i') \<Rightarrow>
                  (Some (Wrapf ''when deleting index entries for chunkID=%s'' err), w1\<lparr>idx := i'\<rparr>)
              | (None, i') \<Rightarrow>
                  (case Client_DeleteChunk (chunks c) chunkID (blobs w1) of
                     (Some err, b') \<Rightarrow>
                       if err = ErrStorageObjectNotFound then (None, w1\<lparr>idx := i', blobs := b'\<rparr>)
                       else (Some (Wrapf ''when deleting chunk from storage with chunkID=%s'' err),
                             w1\<lparr>idx := i', blobs := b'\<rparr>)
                   | (None, b') \<Rightarrow> (None, w1\<lparr>idx := i', blobs := b'\<rparr>))))"
    using assms(1) by (simp add: deleteChunk_def assms(3) NewWriteBatch_def Let_def split: option.split)
  finally show ?thesis .
qed

lemma DeleteChunk_sliced:
  assumes name: "Labels_Get metric MetricName \<noteq> []"
    and ent: "GetWriteEntries (schema c) from through userID (Labels_Get metric MetricName) metric chunkID
           = Inr entries"
    and parse: "ParseExternalKey (pkg c) userID chunkID = Inr parsed"
    and i1: "From parsed < a" and i2: "a \<le> b" and i3: "b < Through parsed"
    and fe: "FetchChunks (fetcher c) [parsed] [chunkID] (blobs w) (cache w) = (Inr [ch], k1)"
    and f1: "From ch = From parsed" and f2: "Through ch = Through parsed"
    and s1: "Slice (pkg c) ch (From ch) (a - 1) = (n1, e1)"
    and o1: "e1 = None \<or> e1 = Some ErrSliceNoDataInRange"
    and s2: "Slice (pkg c) ch (b + 1) (Through ch) = (n2, e2)"
    and o2: "e2 = None \<or> e2 = Some ErrSliceNoDataInRange"
    and put: "putNewChunks (pkg c) (\<lambda>n. PutOne c (From n) (Through n) n) (kept n1 @ kept n2)
                (w\<lparr>cache := k1\<rparr>) = (pe, w1)"
  shows "reboundChunk c userID chunkID (a, b) (\<lambda>n. PutOne c (From n) (Through n) n) w = (pe, w1)"
  using reboundChunk_sliced [OF parse i1 i2 i3 fe f1 f2 s1 o1 s2 o2] put by simp

lemma DeleteChunk_put_failed:
  assumes "Labels_Get metric MetricName \<noteq> []"
    and "GetWriteEntries (schema c) from through userID (Labels_Get metric MetricName) metric chunkID
           = Inr entries"
    and "reboundChunk c userID chunkID (a, b) (\<lambda>n. PutOne c (From n) (Through n) n) w = (pe, w1)"
    and "pe = Some err"
  shows "DeleteChunk c from through userID chunkID metric (Some (a, b)) w
      = (Some (Wrapf ''chunkID=%s'' err), w1)"
  by (simp add: DeleteChunk_rebound [OF assms(1,2,3)] assms(4))

lemma DeleteChunk_done:
  assumes "Labels_Get metric MetricName \<noteq> []"
    and "GetWriteEntries (schema c) from through userID (Labels_Get metric MetricName) metric chunkID
           = Inr entries"
    and "reboundChunk c userID chunkID (a, b) (\<lambda>n. PutOne c (From n) (Through n) n) w = (pe, w1)"
    and "pe = None"
    and "BatchWrite (index c)
           (map (\<lambda>e. Delete (TableName e) (HashValue e) (RangeValue e)) entries) (idx w1) = (None, i2)"
    and "Client_DeleteChunk (chunks c) chunkID (blobs w1) = (de, b2)"
    and "de = None \<or> de = Some ErrStorageObjectNotFound"
  shows "DeleteChunk c from through userID chunkID metric (Some (a, b)) w
      = (None, w1\<lparr>idx := i2, blobs := b2\<rparr>)"
proof -
  from assms(7) show ?thesis
  proof
    assume "de = None"
    then show ?thesis
      by (simp add: DeleteChunk_rebound [OF assms(1,2,3)] assms(4,5,6))
  next
    assume "de = Some ErrStorageObjectNotFound"
    then show ?thesis
      by (simp add: DeleteChunk_rebound [OF assms(1,2,3)] assms(4,5,6))
  qed
qed

lemma deleted_blob_gone:
  assumes bc: "blobContract c holds"
    and put: "putNewChunks (pkg c) (\<lambda>n. PutOne c (From n) (Through n) n) news w0 = (None, w1)"
    and dc: "Client_DeleteChunk (chunks c) chunkID (blobs w1) = (de, b2)"
    and de: "de = None \<or> de = Some ErrStorageObjectNotFound"
  shows "chunkID \<notin> holds b2 \<and> set (encodedKeys (pkg c) news) - {chunkID} \<subseteq> holds b2"
proof -
  from putNewChunks_holds [OF bc put]
  have h1: "set (encodedKeys (pkg c) news) \<subseteq> holds (blobs w1)" by simp
  from bc have "\<forall>k b e b'. Client_DeleteChunk (chunks c) k b = (e, b')
      \<and> (e = None \<or> e = Some ErrStorageObjectNotFound) \<longrightarrow> holds b' = holds b - {k}"
    by (simp add: blobContract_def)
  then have "Client_DeleteChunk (chunks c) chunkID (blobs w1) = (de, b2)
      \<and> (de = None \<or> de = Some ErrStorageObjectNotFound) \<longrightarrow> holds b2 = holds (blobs w1) - {chunkID}"
    by (elim allE)
  with dc de have h2: "holds b2 = holds (blobs w1) - {chunkID}" by simp
  from h1 show ?thesis unfolding h2 by auto
qed

lemma deleted_rows_gone:
  assumes "indexContract c rows"
    and "BatchWrite (index c)
           (map (\<lambda>e. Delete (TableName e) (HashValue e) (RangeValue e)) entries) i1 = (None, i2)"
  shows "rows i2 \<inter> entry_triple ` set entries = {}"
proof -
  from assms(1) have "\<forall>batch i i'. BatchWrite (index c) batch i = (None, i') \<longrightarrow>
        rows i' = fold applyTriple batch (rows i)"
    by (simp add: indexContract_def)
  then have "BatchWrite (index c)
           (map (\<lambda>e. Delete (TableName e) (HashValue e) (RangeValue e)) entries) i1 = (None, i2)
      \<longrightarrow> rows i2 = fold applyTriple
            (map (\<lambda>e. Delete (TableName e) (HashValue e) (RangeValue e)) entries) (rows i1)"
    by (elim allE)
  with assms(2) have "rows i2 = rows i1 - entry_triple ` set entries"
    by (simp add: fold_applyTriple_deletes)
  then show ?thesis by auto
qed

text \<open>
  Claim C3. \<^verbatim>\<open>DeleteChunk\<close> with a partially deleted interval \<open>[a, b]\<close>, for a chunk
  identifier that parses and a metric with a name. If \<open>[a, b]\<close> does not overlap the
  interval of the chunk, the call fails with \<^verbatim>\<open>ErrParialDeleteChunkNoOverlap\<close> (wrapped
  with the chunk identifier) and changes nothing. If \<open>[a, b]\<close> is strictly inside the
  interval, the fetched chunk is sliced on \<open>[From, a - 1]\<close> and on \<open>[b + 1, Through]\<close>, a
  slice without data being skipped; the slices are encoded and put through \<^verbatim>\<open>PutOne\<close>
  and, if a put fails, the call fails there, before anything of the original is deleted;
  then the index entries of the original are deleted and then its payload, a payload that
  is not found counting as deleted. For clients that keep their contracts, afterwards the
  blob store holds the keys of the new chunks and not the key of the original, and the
  index holds none of the entries of the original.
\<close>

theorem DeleteChunk_partial:
  assumes "Labels_Get metric MetricName \<noteq> []"
    and "GetWriteEntries (schema c) from through userID (Labels_Get metric MetricName) metric chunkID
           = Inr entries"
    and "ParseExternalKey (pkg c) userID chunkID = Inr parsed"
  shows "(\<not> intervalsOverlap (From parsed, Through parsed) (a, b) \<longrightarrow>
            DeleteChunk c from through userID chunkID metric (Some (a, b)) w
              = (Some (Wrapf ''chunkID=%s'' ErrParialDeleteChunkNoOverlap), w)
            \<and> Cause (Wrapf ''chunkID=%s'' ErrParialDeleteChunkNoOverlap) = ErrParialDeleteChunkNoOverlap)
       \<and> (From parsed < a \<and> a \<le> b \<and> b < Through parsed
          \<and> FetchChunks (fetcher c) [parsed] [chunkID] (blobs w) (cache w) = (Inr [ch], k1)
          \<and> From ch = From parsed \<and> Through ch = Through parsed
          \<and> Slice (pkg c) ch (From ch) (a - 1) = (n1, e1)
          \<and> (e1 = None \<or> e1 = Some ErrSliceNoDataInRange)
          \<and> Slice (pkg c) ch (b + 1) (Through ch) = (n2, e2)
          \<and> (e2 = None \<or> e2 = Some ErrSliceNoDataInRange)
          \<and> putNewChunks (pkg c) (\<lambda>n. PutOne c (From n) (Through n) n) (kept n1 @ kept n2)
                (w\<lparr>cache := k1\<rparr>) = (pe, w1) \<longrightarrow>
            (\<forall>err. pe = Some err \<longrightarrow>
               DeleteChunk c from through userID chunkID metric (Some (a, b)) w
                 = (Some (Wrapf ''chunkID=%s'' err), w1))
            \<and> (pe = None
                \<and> BatchWrite (index c)
                    (map (\<lambda>e. Delete (TableName e) (HashValue e) (RangeValue e)) entries) (idx w1)
                    = (None, i2)
                \<and> Client_DeleteChunk (chunks c) chunkID (blobs w1) = (de, b2)
                \<and> (de = None \<or> de = Some ErrStorageObjectNotFound) \<longrightarrow>
                  DeleteChunk c from through userID chunkID metric (Some (a, b)) w
                    = (None, w1\<lparr>idx := i2, blobs := b2\<rparr>)
                  \<and> (blobContract c holds \<longrightarrow>
                        chunkID \<notin> holds b2
                        \<and> set (encodedKeys (pkg c) (kept n1 @ kept n2)) - {chunkID} \<subseteq> holds b2)
                  \<and> (indexContract c rows \<longrightarrow> rows i2 \<inter> entry_triple ` set entries = {})))"
proof -
  note name = assms(1) and ent = assms(2) and parse = assms(3)
  have A: "\<not> intervalsOverlap (From parsed, Through parsed) (a, b) \<Longrightarrow>
      DeleteChunk c from through userID chunkID metric (Some (a, b)) w
        = (Some (Wrapf ''chunkID=%s'' ErrParialDeleteChunkNoOverlap), w)"
    by (rule DeleteChunk_no_overlap [OF name ent parse])
  have A': "Cause (Wrapf ''chunkID=%s'' ErrParialDeleteChunkNoOverlap) = ErrParialDeleteChunkNoOverlap"
    by simp
  have R: "reboundChunk c userID chunkID (a, b) (\<lambda>n. PutOne c (From n) (Through n) n) w = (pe, w1)"
    if "From parsed < a" "a \<le> b" "b < Through parsed"
      "FetchChunks (fetcher c) [parsed] [chunkID] (blobs w) (cache w) = (Inr [ch], k1)"
      "From ch = From parsed" "Through ch = Through parsed"
      "Slice (pkg c) ch (From ch) (a - 1) = (n1, e1)"
      "e1 = None \<or> e1 = Some ErrSliceNoDataInRange"
      "Slice (pkg c) ch (b + 1) (Through ch) = (n2, e2)"
      "e2 = None \<or> e2 = Some ErrSliceNoDataInRange"
      "putNewChunks (pkg c) (\<lambda>n. PutOne c (From n) (Through n) n) (kept n1 @ kept n2)
                (w\<lparr>cache := k1\<rparr>) = (pe, w1)"
    by (rule DeleteChunk_sliced [OF name ent parse that])
  have B: "DeleteChunk c from through userID chunkID metric (Some (a, b)) w
      = (Some (Wrapf ''chunkID=%s'' err), w1)"
    if "reboundChunk c userID chunkID (a, b) (\<lambda>n. PutOne c (From n) (Through n) n) w = (pe, w1)"
      "pe = Some err" for err
    by (rule DeleteChunk_put_failed [OF name ent that])
  have C: "DeleteChunk c from through userID chunkID metric (Some (a, b)) w
      = (None, w1\<lparr>idx := i2, blobs := b2\<rparr>)"
    if "reboundChunk c userID chunkID (a, b) (\<lambda>n. PutOne c (From n) (Through n) n) w = (pe, w1)"
      "pe = None"
      "BatchWrite (index c)
           (map (\<lambda>e. Delete (TableName e) (HashValue e) (RangeValue e)) entries) (idx w1) = (None, i2)"
      "Client_DeleteChunk (chunks c) chunkID (blobs w1) = (de, b2)"
      "de = None \<or> de = Some ErrStorageObjectNotFound"
    by (rule DeleteChunk_done [OF name ent that])
  have D: "chunkID \<notin> holds b2 \<and> set (encodedKeys (pkg c) (kept n1 @ kept n2)) - {chunkID} \<subseteq> holds b2"
    if "blobContract c holds"
      "putNewChunks (pkg c) (\<lambda>n. PutOne c (From n) (Through n) n) (kept n1 @ kept n2)
                (w\<lparr>cache := k1\<rparr>) = (pe, w1)" "pe = None"
      "Client_DeleteChunk (chunks c) chunkID (blobs w1) = (de, b2)"
      "de = None \<or> de = Some ErrStorageObjectNotFound"
    using deleted_blob_gone [OF that(1) that(2) [unfolded that(3)] that(4) that(5)] .
  have E: "rows i2 \<inter> entry_triple ` set entries = {}"
    if "indexContract c rows"
      "BatchWrite (index c)
           (map (\<lambda>e. Delete (TableName e) (HashValue e) (RangeValue e)) entries) (idx w1) = (None, i2)"
    by (rule deleted_rows_gone [OF that])
  show ?thesis
    apply (intro conjI impI allI)
          apply (erule A)
         apply (rule A')
        apply (elim conjE)
        apply (rule B)
         apply (rule R; assumption)
        apply assumption
       apply (elim conjE)
       apply (rule C)
           apply (rule R; assumption)
          apply assumption+
      apply (elim conjE)
      apply (rule D [THEN conjunct1]; assumption)
     apply (elim conjE)
     apply (rule D [THEN conjunct2]; assumption)
    apply (elim conjE)
    apply (rule E; assumption)
    done
qed

lemma keys_fold_update:
  "fst ` set (fold (\<lambda>chunk. AList.update (memKey chunk) chunk) cs b) = fst ` set b \<union> memKey ` set cs"
  by (induction cs arbitrary: b) (auto simp: dom_update)

lemma memStore_blobContract: "blobContract (memStore cfg) (\<lambda>b. fst ` set b)"
proof -
  have p: "fst ` set b' = fst ` set b \<union> ExternalKey (pkg (memStore cfg)) ` set cs"
    if "PutChunks (storage (fetcher (memStore cfg))) cs b = (None, b')" for cs b b'
  proof -
    from that have "b' = fold (\<lambda>chunk. AList.update (memKey chunk) chunk) cs b"
      by (cases "putFailure cfg") (simp_all add: memStore_def memFetcher_def memClient_def)
    then show ?thesis
      by (simp add: keys_fold_update memStore_def memPkg_def)
  qed
  have d: "fst ` set b' = fst ` set b - {k}"
    if "Client_DeleteChunk (chunks (memStore cfg)) k b = (e, b')" for k b e b'
  proof (cases "map_of b k")
    case None
    with that have "b' = b" by (simp add: memStore_def memClient_def)
    moreover from None have "k \<notin> fst ` set b" by (simp add: map_of_eq_None_iff)
    ultimately show ?thesis by simp
  next
    case (Some chunk)
    with that have "b' = AList.delete k b" by (simp add: memStore_def memClient_def)
    then have "set (map fst b') = set (removeAll k (map fst b))" by (simp add: delete_keys)
    then show ?thesis by simp
  qed
  show ?thesis
    unfolding blobContract_def using p d by blast
qed

lemma triples_memApply:
  "entry_triple ` set (memApply op i) = applyTriple op (entry_triple ` set i)"
  by (cases op) (auto simp: entry_triple_def)

lemma triples_fold_memApply:
  "entry_triple ` set (fold memApply batch i) = fold applyTriple batch (entry_triple ` set i)"
  by (induction batch arbitrary: i) (simp_all add: triples_memApply)

lemma memStore_indexContract: "indexContract (memStore cfg) (\<lambda>i. entry_triple ` set i)"
  unfolding indexContract_def
  by (cases "indexFailure cfg") (auto simp: memStore_def memIndexClient_def triples_fold_memApply)

lemma storedA_eq:
  "storedA =
     \<lparr>idx = [memRow ''7:http_requests'' (memKey chunkA) [],
             memRow ''7:http_requests:job'' (memKey chunkA) ''api''],
      blobs = [(memKey chunkA, chunkA)],
      cache = [(memKey chunkA, chunkA)],
      logged = []\<rparr>"
  by (simp add: storedA_def PutOne_def cacheWarning_def mem_defs store_defs)

lemma parse_A:
  "ParseExternalKey (pkg (memStore plainConfig)) ''7'' (memKey chunkA)
     = Inr \<lparr>Fingerprint = 1, UserID = ''7'', From = 10, Through = 20, Metric = [], Checksum = 3, Data = []\<rparr>"
  by (simp add: mem_defs memParseKey_def)

lemma entries_A:
  "GetWriteEntries (schema (memStore plainConfig)) 10 20 ''7'' (Labels_Get (Metric chunkA) MetricName)
      (Metric chunkA) (memKey chunkA)
     = Inr [memRow ''7:http_requests'' (memKey chunkA) [], memRow ''7:http_requests'' (memKey chunkA) [],
            memRow ''7:http_requests:job'' (memKey chunkA) ''api'']"
  by (simp add: mem_defs store_defs)

lemma fetch_A:
  "FetchChunks (fetcher (memStore plainConfig))
      [\<lparr>Fingerprint = 1, UserID = ''7'', From = 10, Through = 20, Metric = [], Checksum = 3, Data = []\<rparr>]
      [memKey chunkA] (blobs storedA) (cache storedA) = (Inr [chunkA], cache storedA)"
  unfolding storedA_eq by (simp add: mem_defs)

lemma slices_A:
  "Slice (pkg (memStore plainConfig)) chunkA (From chunkA) (12 - 1) = (Some chunkA1, None)"
  "Slice (pkg (memStore plainConfig)) chunkA (15 + 1) (Through chunkA) = (Some chunkA2, None)"
  by (simp_all add: mem_defs chunkA1_def chunkA2_def)

lemma encode_A:
  "Encode (pkg (memStore plainConfig)) chunkA1 = Inr chunkA1"
  "Encode (pkg (memStore plainConfig)) chunkA2 = Inr chunkA2"
  by (simp_all add: mem_defs chunkA1_def chunkA2_def)

lemma put_A1:
  "PutOne (memStore plainConfig) (From chunkA1) (Through chunkA1) chunkA1 storedA
     = (None, \<lparr>idx = idx storedA @ [memRow ''7:http_requests'' (memKey chunkA1) [],
                                 memRow ''7:http_requests:job'' (memKey chunkA1) ''api''],
               blobs = blobs storedA @ [(memKey chunkA1, chunkA1)],
               cache = cache storedA @ [(memKey chunkA1, chunkA1)],
               logged = []\<rparr>)"
  unfolding storedA_eq
  by (simp add: PutOne_def cacheWarning_def mem_defs store_defs chunkA1_def)

lemma put_A2:
  "PutOne (memStore plainConfig) (From chunkA2) (Through chunkA2) chunkA2
      \<lparr>idx = idx storedA @ [memRow ''7:http_requests'' (memKey chunkA1) [],
                            memRow ''7:http_requests:job'' (memKey chunkA1) ''api''],
       blobs = blobs storedA @ [(memKey chunkA1, chunkA1)],
       cache = cache storedA @ [(memKey chunkA1, chunkA1)],
       logged = []\<rparr>
     = (None, \<lparr>idx = idx storedA @ [memRow ''7:http_requests'' (memKey chunkA1) [],
                                 memRow ''7:http_requests:job'' (memKey chunkA1) ''api'',
                                 memRow ''7:http_requests'' (memKey chunkA2) [],
                                 memRow ''7:http_requests:job'' (memKey chunkA2) ''api''],
               blobs = blobs storedA @ [(memKey chunkA1, chunkA1), (memKey chunkA2, chunkA2)],
               cache = cache storedA @ [(memKey chunkA1, chunkA1), (memKey chunkA2, chunkA2)],
               logged = []\<rparr>)"
  unfolding storedA_eq
  by (simp add: PutOne_def cacheWarning_def mem_defs store_defs chunkA1_def chunkA2_def)

lemma puts_A:
  "putNewChunks (pkg (memStore plainConfig))
      (\<lambda>n. PutOne (memStore plainConfig) (From n) (Through n) n)
      (kept (Some chunkA1) @ kept (Some chunkA2)) (storedA\<lparr>cache := cache storedA\<rparr>)
     = (None, \<lparr>idx = idx storedA @ [memRow ''7:http_requests'' (memKey chunkA1) [],
                                 memRow ''7:http_requests:job'' (memKey chunkA1) ''api'',
                                 memRow ''7:http_requests'' (memKey chunkA2) [],
                                 memRow ''7:http_requests:job'' (memKey chunkA2) ''api''],
               blobs = blobs storedA @ [(memKey chunkA1, chunkA1), (memKey chunkA2, chunkA2)],
               cache = cache storedA @ [(memKey chunkA1, chunkA1), (memKey chunkA2, chunkA2)],
               logged = []\<rparr>)"
  by (simp add: kept_def encode_A put_A1 put_A2)

lemma deletes_A:
  "BatchWrite (index (memStore plainConfig))
      (map (\<lambda>e. Delete (TableName e) (HashValue e) (RangeValue e))
         [memRow ''7:http_requests'' (memKey chunkA) [], memRow ''7:http_requests'' (memKey chunkA) [],
          memRow ''7:http_requests:job'' (memKey chunkA) ''api''])
      (idx storedA @ [memRow ''7:http_requests'' (memKey chunkA1) [],
                      memRow ''7:http_requests:job'' (memKey chunkA1) ''api'',
                      memRow ''7:http_requests'' (memKey chunkA2) [],
                      memRow ''7:http_requests:job'' (memKey chunkA2) ''api''])
     = (None, [memRow ''7:http_requests'' (memKey chunkA1) [],
               memRow ''7:http_requests:job'' (memKey chunkA1) ''api'',
               memRow ''7:http_requests'' (memKey chunkA2) [],
               memRow ''7:http_requests:job'' (memKey chunkA2) ''api''])"
  unfolding storedA_eq
  by (simp add: mem_defs store_defs chunkA1_def chunkA2_def)

lemma delete_blob_A:
  "Client_DeleteChunk (chunks (memStore plainConfig)) (memKey chunkA)
      (blobs storedA @ [(memKey chunkA1, chunkA1), (memKey chunkA2, chunkA2)])
     = (None, [(memKey chunkA1, chunkA1), (memKey chunkA2, chunkA2)])"
  unfolding storedA_eq
  by (simp add: mem_defs store_defs chunkA1_def chunkA2_def AList.delete_eq)

lemma failing_facts:
  "GetWriteEntries (schema (memStore putFailing)) 10 20 ''7'' (Labels_Get (Metric chunkA) MetricName)
      (Metric chunkA) (memKey chunkA)
     = Inr [memRow ''7:http_requests'' (memKey chunkA) [], memRow ''7:http_requests'' (memKey chunkA) [],
            memRow ''7:http_requests:job'' (memKey chunkA) ''api'']"
  "ParseExternalKey (pkg (memStore putFailing)) ''7'' (memKey chunkA)
     = Inr \<lparr>Fingerprint = 1, UserID = ''7'', From = 10, Through = 20, Metric = [], Checksum = 3, Data = []\<rparr>"
  "Slice (pkg (memStore putFailing)) chunkA (From chunkA) (12 - 1) = (Some chunkA1, None)"
  "Slice (pkg (memStore putFailing)) chunkA (15 + 1) (Through chunkA) = (Some chunkA2, None)"
  "Encode (pkg (memStore putFailing)) chunkA1 = Inr chunkA1"
  by (simp_all add: mem_defs store_defs memParseKey_def chunkA1_def chunkA2_def)

lemma failing_fetch:
  "FetchChunks (fetcher (memStore putFailing))
      [\<lparr>Fingerprint = 1, UserID = ''7'', From = 10, Through = 20, Metric = [], Checksum = 3, Data = []\<rparr>]
      [memKey chunkA] (blobs storedA) (cache storedA) = (Inr [chunkA], cache storedA)"
  unfolding storedA_eq by (simp add: mem_defs)

lemma failing_put:
  "PutOne (memStore putFailing) (From chunkA1) (Through chunkA1) chunkA1 storedA
     = (Some (Errorf ''put failed''), storedA)"
  unfolding storedA_eq
  by (simp add: PutOne_def mem_defs)

lemma failing_puts:
  "putNewChunks (pkg (memStore putFailing))
      (\<lambda>n. PutOne (memStore putFailing) (From n) (Through n) n)
      (kept (Some chunkA1) @ kept (Some chunkA2)) (storedA\<lparr>cache := cache storedA\<rparr>)
     = (Some (Wrapf ''when putting new chunk formed after slicing for interval %d - %d''
                (Errorf ''put failed'')), storedA)"
  by (simp add: kept_def failing_facts(5) failing_put)

text \<open>
  The chunk of tenant 7 on the interval 10 to 20, deleted from 12 to 15: the store is left
  with the chunks on 10 to 11 and on 16 to 20 and their index entries, and without the
  original. A deletion from 30 to 40 is refused. When the blob store fails, the deletion
  from 12 to 15 fails at the first put and the original stays.
\<close>

theorem DeleteChunk_partial_witness:
  "DeleteChunk (memStore plainConfig) 10 20 ''7'' (memKey chunkA) (Metric chunkA) (Some (12, 15)) storedA
     = (None,
        \<lparr>idx = [memRow ''7:http_requests'' (memKey chunkA1) [],
                memRow ''7:http_requests:job'' (memKey chunkA1) ''api'',
                memRow ''7:http_requests'' (memKey chunkA2) [],
                memRow ''7:http_requests:job'' (memKey chunkA2) ''api''],
         blobs = [(memKey chunkA1, chunkA1), (memKey chunkA2, chunkA2)],
         cache = cache storedA @ [(memKey chunkA1, chunkA1), (memKey chunkA2, chunkA2)],
         logged = []\<rparr>)
   \<and> memKey chunkA \<notin> fst ` set [(memKey chunkA1, chunkA1), (memKey chunkA2, chunkA2)]
   \<and> set [memKey chunkA1, memKey chunkA2] - {memKey chunkA}
        \<subseteq> fst ` set [(memKey chunkA1, chunkA1), (memKey chunkA2, chunkA2)]
   \<and> entry_triple ` set [memRow ''7:http_requests'' (memKey chunkA1) [],
                           memRow ''7:http_requests:job'' (memKey chunkA1) ''api'',
                           memRow ''7:http_requests'' (memKey chunkA2) [],
                           memRow ''7:http_requests:job'' (memKey chunkA2) ''api'']
        \<inter> entry_triple ` set [memRow ''7:http_requests'' (memKey chunkA) [],
                                 memRow ''7:http_requests'' (memKey chunkA) [],
                                 memRow ''7:http_requests:job'' (memKey chunkA) ''api''] = {}
   \<and> DeleteChunk (memStore plainConfig) 10 20 ''7'' (memKey chunkA) (Metric chunkA) (Some (30, 40)) storedA
     = (Some (Wrapf ''chunkID=%s'' ErrParialDeleteChunkNoOverlap), storedA)
   \<and> DeleteChunk (memStore putFailing) 10 20 ''7'' (memKey chunkA) (Metric chunkA) (Some (12, 15)) storedA
     = (Some (Wrapf ''chunkID=%s''
               (Wrapf ''when putting new chunk formed after slicing for interval %d - %d''
                  (Errorf ''put failed''))), storedA)"
proof -
  let ?parsed = "\<lparr>Fingerprint = 1, UserID = ''7'', From = 10, Through = 20, Metric = [], Checksum = 3,
                  Data = []\<rparr>"
  let ?entries = "[memRow ''7:http_requests'' (memKey chunkA) [], memRow ''7:http_requests'' (memKey chunkA) [],
                   memRow ''7:http_requests:job'' (memKey chunkA) ''api'']"
  let ?i2 = "[memRow ''7:http_requests'' (memKey chunkA1) [],
              memRow ''7:http_requests:job'' (memKey chunkA1) ''api'',
              memRow ''7:http_requests'' (memKey chunkA2) [],
              memRow ''7:http_requests:job'' (memKey chunkA2) ''api'']"
  let ?b2 = "[(memKey chunkA1, chunkA1), (memKey chunkA2, chunkA2)]"
  let ?w1 = "\<lparr>idx = idx storedA @ ?i2, blobs = blobs storedA @ ?b2, cache = cache storedA @ ?b2,
               logged = []\<rparr>"
  have name: "Labels_Get (Metric chunkA) MetricName \<noteq> []"
    by (simp add: mem_defs store_defs)
  have far: "\<not> intervalsOverlap (From ?parsed, Through ?parsed) (30, 40)"
    by (simp add: intervalsOverlap_def)
  have inner: "From ?parsed < 12 \<and> (12::int) \<le> 15 \<and> 15 < Through ?parsed
      \<and> FetchChunks (fetcher (memStore plainConfig)) [?parsed] [memKey chunkA] (blobs storedA) (cache storedA)
          = (Inr [chunkA], cache storedA)
      \<and> From chunkA = From ?parsed \<and> Through chunkA = Through ?parsed
      \<and> Slice (pkg (memStore plainConfig)) chunkA (From chunkA) (12 - 1) = (Some chunkA1, None)
      \<and> (None = None \<or> None = Some ErrSliceNoDataInRange)
      \<and> Slice (pkg (memStore plainConfig)) chunkA (15 + 1) (Through chunkA) = (Some chunkA2, None)
      \<and> (None = None \<or> None = Some ErrSliceNoDataInRange)
      \<and> putNewChunks (pkg (memStore plainConfig))
            (\<lambda>n. PutOne (memStore plainConfig) (From n) (Through n) n)
            (kept (Some chunkA1) @ kept (Some chunkA2)) (storedA\<lparr>cache := cache storedA\<rparr>) = (None, ?w1)"
    using fetch_A slices_A puts_A by (simp add: chunkA_def)
  have rest: "None = None
      \<and> BatchWrite (index (memStore plainConfig))
          (map (\<lambda>e. Delete (TableName e) (HashValue e) (RangeValue e)) ?entries) (idx ?w1) = (None, ?i2)
      \<and> Client_DeleteChunk (chunks (memStore plainConfig)) (memKey chunkA) (blobs ?w1) = (None, ?b2)
      \<and> (None = None \<or> None = Some ErrStorageObjectNotFound)"
    using deletes_A delete_blob_A by simp
  note thm1 = DeleteChunk_partial [OF name entries_A parse_A,
      where a = 30 and b = 40 and w = storedA]
  note thm2 = DeleteChunk_partial [OF name entries_A parse_A,
      where a = 12 and b = 15 and w = storedA and ch = chunkA and ?k1.0 = "cache storedA"
        and ?n1.0 = "Some chunkA1" and ?e1.0 = None and ?n2.0 = "Some chunkA2" and ?e2.0 = None
        and pe = None and ?w1.0 = ?w1 and ?i2.0 = ?i2 and de = None and ?b2.0 = ?b2
        and holds = "\<lambda>b. fst ` set b" and rows = "\<lambda>i. entry_triple ` set i"]
  from thm1 [THEN conjunct1, THEN mp, OF far]
  have a: "DeleteChunk (memStore plainConfig) 10 20 ''7'' (memKey chunkA) (Metric chunkA) (Some (30, 40)) storedA
     = (Some (Wrapf ''chunkID=%s'' ErrParialDeleteChunkNoOverlap), storedA)"
    by (rule conjunct1)
  note fin = thm2 [THEN conjunct2, THEN mp, OF inner, THEN conjunct2, THEN mp, OF rest]
  from fin [THEN conjunct1]
  have b: "DeleteChunk (memStore plainConfig) 10 20 ''7'' (memKey chunkA) (Metric chunkA) (Some (12, 15)) storedA
     = (None, ?w1\<lparr>idx := ?i2, blobs := ?b2\<rparr>)" .
  from fin [THEN conjunct2, THEN conjunct1, THEN mp, OF memStore_blobContract]
  have c: "memKey chunkA \<notin> fst ` set ?b2
      \<and> set (encodedKeys (pkg (memStore plainConfig)) (kept (Some chunkA1) @ kept (Some chunkA2)))
           - {memKey chunkA} \<subseteq> fst ` set ?b2" .
  have k: "encodedKeys (pkg (memStore plainConfig)) (kept (Some chunkA1) @ kept (Some chunkA2))
      = [memKey chunkA1, memKey chunkA2]"
    by (simp add: encodedKeys_def kept_def encode_A) (simp add: memStore_def memPkg_def)
  from fin [THEN conjunct2, THEN conjunct2, THEN mp, OF memStore_indexContract]
  have d: "entry_triple ` set ?i2 \<inter> entry_triple ` set ?entries = {}" .
  have inner': "From ?parsed < 12 \<and> (12::int) \<le> 15 \<and> 15 < Through ?parsed
      \<and> FetchChunks (fetcher (memStore putFailing)) [?parsed] [memKey chunkA] (blobs storedA) (cache storedA)
          = (Inr [chunkA], cache storedA)
      \<and> From chunkA = From ?parsed \<and> Through chunkA = Through ?parsed
      \<and> Slice (pkg (memStore putFailing)) chunkA (From chunkA) (12 - 1) = (Some chunkA1, None)
      \<and> (None = None \<or> None = Some ErrSliceNoDataInRange)
      \<and> Slice (pkg (memStore putFailing)) chunkA (15 + 1) (Through chunkA) = (Some chunkA2, None)
      \<and> (None = None \<or> None = Some ErrSliceNoDataInRange)
      \<and> putNewChunks (pkg (memStore putFailing))
            (\<lambda>n. PutOne (memStore putFailing) (From n) (Through n) n)
            (kept (Some chunkA1) @ kept (Some chunkA2)) (storedA\<lparr>cache := cache storedA\<rparr>)
          = (Some (Wrapf ''when putting new chunk formed after slicing for interval %d - %d''
                     (Errorf ''put failed'')), storedA)"
    using failing_fetch failing_facts(3,4) failing_puts by (simp add: chunkA_def)
  note thm3 = DeleteChunk_partial [OF name failing_facts(1) failing_facts(2),
      where a = 12 and b = 15 and w = storedA and ch = chunkA and ?k1.0 = "cache storedA"
        and ?n1.0 = "Some chunkA1" and ?e1.0 = None and ?n2.0 = "Some chunkA2" and ?e2.0 = None
        and pe = "Some (Wrapf ''when putting new chunk formed after slicing for interval %d - %d''
                     (Errorf ''put failed''))" and ?w1.0 = storedA]
  from thm3 [THEN conjunct2, THEN mp, OF inner', THEN conjunct1, THEN spec, THEN mp, OF refl]
  have e: "DeleteChunk (memStore putFailing) 10 20 ''7'' (memKey chunkA) (Metric chunkA) (Some (12, 15)) storedA
     = (Some (Wrapf ''chunkID=%s''
               (Wrapf ''when putting new chunk formed after slicing for interval %d - %d''
                  (Errorf ''put failed''))), storedA)" .
  from a b c d e show ?thesis
    unfolding k by simp
qed

section \<open>Reading a chunk that was written\<close>



































end
